theory Spec2Isabelle
  imports Main "HOL-Library.Sublist"
begin

section \<open>Strings of the source language\<close>

text \<open>
  A JavaScript string is modelled as the list of its code units, for the code units
  below 256 (type \<open>char\<close>). \<open>String.prototype.trim\<close> removes white space and line
  terminators at both ends; the ones in this range are TAB, LF, VT, FF, CR, SPACE and
  NBSP.
\<close>

definition isWhiteSpace :: "char \<Rightarrow> bool" where
  "isWhiteSpace c \<longleftrightarrow>
     c = CHR 0x09 \<or> c = CHR 0x0A \<or> c = CHR 0x0B \<or> c = CHR 0x0C \<or> c = CHR 0x0D
     \<or> c = CHR 0x20 \<or> c = CHR 0xA0"

definition trim :: "string \<Rightarrow> string" where
  "trim s = rev (dropWhile isWhiteSpace (rev (dropWhile isWhiteSpace s)))"

text \<open>
  \<open>s.split(',')\<close>: the pieces of \<open>s\<close> between the commas, in order; one more piece
  than there are commas, so the empty string gives one empty piece. The first argument
  holds the characters of the current piece, last first.
\<close>

fun split_from :: "string \<Rightarrow> string \<Rightarrow> string list" where
  "split_from piece [] = [rev piece]"
| "split_from piece (c # cs) =
     (if c = CHR '','' then rev piece # split_from [] cs else split_from (c # piece) cs)"

definition split_comma :: "string \<Rightarrow> string list" where
  "split_comma s = split_from [] s"

text \<open>\<open>xs.join(sep)\<close> on an array of strings.\<close>

fun join :: "string \<Rightarrow> string list \<Rightarrow> string" where
  "join sep [] = []"
| "join sep [x] = x"
| "join sep (x # y # ys) = x @ sep @ join sep (y # ys)"

text \<open>The decimal numeral of a non-negative integer, as a template literal prints it.\<close>

definition digit :: "nat \<Rightarrow> char" where
  "digit d = char_of (of_char (CHR ''0'') + d)"

fun decimal :: "nat \<Rightarrow> string" where
  "decimal n = (if n < 10 then [digit n] else decimal (n div 10) @ [digit (n mod 10)])"

declare decimal.simps [simp del]

section \<open>The server entry point (src/index.ts)\<close>

subsection \<open>Configuration and tool registry\<close>

text \<open>
  \<open>enabledTools\<close> and \<open>tools\<close> are each an optional union of a string and an
  array of strings (\<open>configSchema\<close>).
\<close>

datatype tools_param = ToolsString string | ToolsArray "string list"

text \<open>
  The tool handlers take \<open>config?: { exaApiKey?: string }\<close>; the entry point's
  configuration is an object of that shape with three more properties.
\<close>

record api_config =
  exaApiKey :: "string option"

record config = api_config +
  enabledTools :: "tools_param option"
  tools :: "tools_param option"
  debug :: bool

record tool_info =
  name :: string
  description :: string
  enabled :: bool

text \<open>The object literal \<open>availableTools\<close>, in the order of its keys.\<close>

definition availableTools :: "(string \<times> tool_info) list" where
  "availableTools =
    [(''web_search_exa'',
        \<lparr>name = ''Web Search (Exa)'',
         description = ''Real-time web search using Exa AI'', enabled = True\<rparr>),
     (''get_code_context_exa'',
        \<lparr>name = ''Code Context Search'',
         description = ''Search for code snippets, examples, and documentation from open source repositories'',
         enabled = True\<rparr>),
     (''crawling_exa'',
        \<lparr>name = ''Web Crawling'',
         description = ''Extract content from specific URLs'', enabled = False\<rparr>),
     (''deep_researcher_start'',
        \<lparr>name = ''Deep Researcher Start'',
         description = ''Start a comprehensive AI research task'', enabled = False\<rparr>),
     (''deep_researcher_check'',
        \<lparr>name = ''Deep Researcher Check'',
         description = ''Check status and retrieve results of research task'', enabled = False\<rparr>),
     (''linkedin_search_exa'',
        \<lparr>name = ''LinkedIn Search'',
         description = ''Search LinkedIn profiles and companies'', enabled = False\<rparr>),
     (''company_research_exa'',
        \<lparr>name = ''Company Research'',
         description = ''Research companies and organizations'', enabled = False\<rparr>)]"

text \<open>
  Truthiness of an optional string-or-array: \<open>undefined\<close> and the empty string are
  falsy, every array (the empty one too) is truthy.
\<close>

fun truthy :: "tools_param option \<Rightarrow> bool" where
  "truthy None = False"
| "truthy (Some (ToolsString s)) = (s \<noteq> [])"
| "truthy (Some (ToolsArray a)) = True"

text \<open>\<open>const toolsParam = config.tools || config.enabledTools\<close>\<close>

definition toolsParam :: "config \<Rightarrow> tools_param option" where
  "toolsParam cfg = (if truthy (tools cfg) then tools cfg else enabledTools cfg)"

text \<open>
  \<open>toolsParam.split(',').map(tool => tool.trim()).filter(tool => tool.length > 0)\<close>
  is \<open>parse_tools_string\<close>. \<open>parsedEnabledTools\<close> is \<open>undefined\<close> unless
  \<open>toolsParam\<close> is truthy; a string is parsed, an array is taken as it is.
\<close>

definition parse_tools_string :: "string \<Rightarrow> string list" where
  "parse_tools_string s = filter (\<lambda>tool. length tool > 0) (map trim (split_comma s))"

definition parsedEnabledTools :: "config \<Rightarrow> string list option" where
  "parsedEnabledTools cfg =
     (if truthy (toolsParam cfg) then
        (case toolsParam cfg of
           Some (ToolsString s) \<Rightarrow> Some (parse_tools_string s)
         | Some (ToolsArray a) \<Rightarrow> Some a
         | None \<Rightarrow> None)
      else None)"

text \<open>\<open>availableTools[toolId]?.enabled ?? false\<close>\<close>

definition default_enabled :: "string \<Rightarrow> bool" where
  "default_enabled toolId =
     (case map_of availableTools toolId of Some tool \<Rightarrow> enabled tool | None \<Rightarrow> False)"

definition shouldRegisterTool :: "config \<Rightarrow> string \<Rightarrow> bool" where
  "shouldRegisterTool cfg toolId =
     (case parsedEnabledTools cfg of
        Some ts \<Rightarrow> if length ts > 0 then toolId \<in> set ts else default_enabled toolId
      | None \<Rightarrow> default_enabled toolId)"

subsection \<open>Registration\<close>

text \<open>
  The state the entry point builds: the messages passed to \<open>log\<close>, the capability
  ids whose register function has been called on the server, and the array
  \<open>registeredTools\<close>.
\<close>

record server_state =
  logged :: "string list"
  bound :: "string list"
  registeredTools :: "string list"

definition log :: "string \<Rightarrow> server_state \<Rightarrow> server_state" where
  "log msg st = st\<lparr>logged := logged st @ [msg]\<rparr>"

text \<open>
  One block \<open>if (shouldRegisterTool(id)) { registerXTool(server, normalizedConfig);
  registeredTools.push(id); }\<close>.
\<close>

definition register_if :: "config \<Rightarrow> string \<Rightarrow> server_state \<Rightarrow> server_state" where
  "register_if cfg toolId st =
     (if shouldRegisterTool cfg toolId
      then st\<lparr>bound := bound st @ [toolId], registeredTools := registeredTools st @ [toolId]\<rparr>
      else st)"

definition log_config :: "config \<Rightarrow> server_state \<Rightarrow> server_state" where
  "log_config cfg st =
     (if debug cfg then
        (let st1 = log ''Starting Exa MCP Server in debug mode'' st in
         case parsedEnabledTools cfg of
           Some ts \<Rightarrow> log (''Enabled tools from config: '' @ join '', '' ts) st1
         | None \<Rightarrow> st1)
      else st)"

definition log_registered :: "config \<Rightarrow> server_state \<Rightarrow> server_state" where
  "log_registered cfg st =
     (if debug cfg then
        log (''Registered '' @ decimal (length (registeredTools st)) @ '' tools: ''
               @ join '', '' (registeredTools st)) st
      else st)"

text \<open>The default export, up to the registration of prompts and resources.\<close>

definition create_server :: "config \<Rightarrow> server_state" where
  "create_server cfg =
     (let st = \<lparr>logged = [], bound = [], registeredTools = []\<rparr>;
          st = log_config cfg st;
          st = log ''Server initialized with modern MCP SDK and Smithery CLI support'' st;
          st = register_if cfg ''web_search_exa'' st;
          st = register_if cfg ''company_research_exa'' st;
          st = register_if cfg ''crawling_exa'' st;
          st = register_if cfg ''linkedin_search_exa'' st;
          st = register_if cfg ''deep_researcher_start'' st;
          st = register_if cfg ''deep_researcher_check'' st;
          st = register_if cfg ''get_code_context_exa'' st;
          st = log_registered cfg st
      in st)"

text \<open>The ids tested by the registration blocks, in the order of the blocks.\<close>

definition registration_order :: "string list" where
  "registration_order =
     [''web_search_exa'', ''company_research_exa'', ''crawling_exa'', ''linkedin_search_exa'',
      ''deep_researcher_start'', ''deep_researcher_check'', ''get_code_context_exa'']"

subsection \<open>The resource \<open>tools_list\<close>\<close>

record tool_entry =
  entry_id :: string
  entry_name :: string
  entry_description :: string
  entry_enabled :: bool

text \<open>
  The array \<open>toolsList\<close> that the resource handler serialises:
  one entry per key of \<open>availableTools\<close>, with
  \<open>enabled: registeredTools.includes(id)\<close>.
\<close>

definition toolsList :: "server_state \<Rightarrow> tool_entry list" where
  "toolsList st =
     map (\<lambda>(id, tool).
            \<lparr>entry_id = id, entry_name = name tool, entry_description = description tool,
             entry_enabled = (id \<in> set (registeredTools st))\<rparr>)
         availableTools"

section \<open>The tool handlers (src/tools/exaCode.ts, src/tools/deepSearch.ts)\<close>

subsection \<open>Results, requests and what the remote call can do\<close>

text \<open>
  A content block \<open>{ type: "text", text }\<close>, and the object a handler returns: the
  property \<open>isError\<close> is absent (\<open>None\<close>) on the paths that do not set it.
\<close>

datatype content_block = TextContent string

record invocation_result =
  content :: "content_block list"
  isError :: "bool option"

text \<open>
  What the \<open>catch\<close> clause reads of a caught value: whether it is an Axios error, its
  \<open>response\<close> when the remote endpoint answered (with the numeric \<open>status\<close> and
  \<open>data?.message\<close>), and its \<open>message\<close>. A value that is no Axios error is an
  \<open>Error\<close> with its message, or anything else with its \<open>String(error)\<close>.
\<close>

record error_response =
  status :: nat
  data_message :: "string option"

datatype thrown =
    AxiosError "error_response option" string
  | ErrorInstance string
  | OtherValue string

text \<open>
  The \<open>try\<close> block either gets the response's \<open>data\<close> from the awaited
  \<open>axiosInstance.post\<close> or a value is thrown.
\<close>

datatype 'd attempt = Responded 'd | Threw thrown

record 'b request =
  baseURL :: string
  url :: string
  headers :: "(string \<times> string) list"
  timeout :: nat
  body :: 'b

text \<open>Constants of src/tools/config.ts that the two handlers use.\<close>

definition BASE_URL :: string where
  "BASE_URL = ''https://api.exa.ai''"

definition ENDPOINT_SEARCH :: string where
  "ENDPOINT_SEARCH = ''/search''"

definition ENDPOINT_CONTEXT :: string where
  "ENDPOINT_CONTEXT = ''/context''"

text \<open>
  \<open>a || b\<close> on optional strings: the left operand when it is truthy (a non-empty
  string), otherwise the right one.
\<close>

definition or_else :: "string option \<Rightarrow> string option \<Rightarrow> string option" where
  "or_else a b = (case a of Some s \<Rightarrow> if s \<noteq> [] then a else b | None \<Rightarrow> b)"

text \<open>\<open>config?.exaApiKey || process.env.EXA_API_KEY || ''\<close>\<close>

definition x_api_key :: "'a api_config_scheme option \<Rightarrow> string option \<Rightarrow> string" where
  "x_api_key config env =
     (case or_else (or_else (case config of Some c \<Rightarrow> exaApiKey c | None \<Rightarrow> None) env) (Some [])
      of Some s \<Rightarrow> s | None \<Rightarrow> [])"

definition request_headers :: "'a api_config_scheme option \<Rightarrow> string option \<Rightarrow> (string \<times> string) list" where
  "request_headers config env =
     [(''accept'', ''application/json''),
      (''content-type'', ''application/json''),
      (''x-api-key'', x_api_key config env)]"

text \<open>
  \<open>error.response?.status || 'unknown'\<close>, as the template literal prints it, and
  \<open>error.response?.data?.message || error.message\<close>.
\<close>

definition statusCode :: "error_response option \<Rightarrow> string" where
  "statusCode resp =
     (case resp of
        Some r \<Rightarrow> if status r \<noteq> 0 then decimal (status r) else ''unknown''
      | None \<Rightarrow> ''unknown'')"

definition errorMessage :: "error_response option \<Rightarrow> string \<Rightarrow> string" where
  "errorMessage resp msg =
     (case or_else (case resp of Some r \<Rightarrow> data_message r | None \<Rightarrow> None) (Some msg)
      of Some m \<Rightarrow> m | None \<Rightarrow> msg)"

subsection \<open>\<open>get_code_context_exa\<close>\<close>

record exa_code_request =
  query :: string
  tokensNum :: int

text \<open>
  Of the response's data the handler reads \<open>response\<close>, a string by its declared
  type; any other value is kept as it is (\<open>ResponseOther\<close>) and goes through
  \<open>JSON.stringify(_, null, 2)\<close>, a function of the language that the handler takes
  here as the parameter \<open>stringify\<close>.
\<close>

datatype 'j response_field = ResponseString string | ResponseOther 'j

record 'j exa_code_data =
  response :: "'j response_field"
  resultsCount :: nat

definition exa_code_post :: "'a api_config_scheme option \<Rightarrow> string option \<Rightarrow> string \<Rightarrow> int
    \<Rightarrow> exa_code_request request" where
  "exa_code_post config env q n =
     \<lparr>baseURL = BASE_URL, url = ENDPOINT_CONTEXT, headers = request_headers config env,
      timeout = 30000, body = \<lparr>query = q, tokensNum = n\<rparr>\<rparr>"

definition exa_code_catch :: "thrown \<Rightarrow> invocation_result" where
  "exa_code_catch e =
     (case e of
        AxiosError resp msg \<Rightarrow>
          \<lparr>content = [TextContent (''Code search error ('' @ statusCode resp @ ''): ''
                        @ errorMessage resp msg @ ''. Please check your query and try again.'')],
           isError = Some True\<rparr>
      | ErrorInstance msg \<Rightarrow>
          \<lparr>content = [TextContent (''Code search error: '' @ msg)], isError = Some True\<rparr>
      | OtherValue str \<Rightarrow>
          \<lparr>content = [TextContent (''Code search error: '' @ str)], isError = Some True\<rparr>)"

definition exa_code_result :: "('j \<Rightarrow> string) \<Rightarrow> 'j exa_code_data option attempt
    \<Rightarrow> invocation_result" where
  "exa_code_result stringify a =
     (case a of
        Responded None \<Rightarrow>
          \<lparr>content = [TextContent ''No code snippets or documentation found. Please try a different query, be more specific about the library or programming concept, or check the spelling of framework names.''],
           isError = None\<rparr>
      | Responded (Some d) \<Rightarrow>
          \<lparr>content = [TextContent (case response d of
                                     ResponseString str \<Rightarrow> str
                                   | ResponseOther j \<Rightarrow> stringify j)],
           isError = None\<rparr>
      | Threw e \<Rightarrow> exa_code_catch e)"

text \<open>
  The handler registered by \<open>registerExaCodeTool\<close>: it builds the request, issues it
  (\<open>post\<close> is the remote side: what the awaited call does with the request) and maps
  the outcome.
\<close>

definition exa_code_handler :: "'a api_config_scheme option \<Rightarrow> string option
    \<Rightarrow> (exa_code_request request \<Rightarrow> 'j exa_code_data option attempt) \<Rightarrow> ('j \<Rightarrow> string)
    \<Rightarrow> string \<Rightarrow> int \<Rightarrow> invocation_result" where
  "exa_code_handler config env post stringify q n =
     exa_code_result stringify (post (exa_code_post config env q n))"

subsection \<open>\<open>deep_search_exa\<close>\<close>

datatype livecrawl_mode = Fallback | Preferred

record search_contents =
  contents_text :: bool
  contents_summary :: bool
  contents_livecrawl :: livecrawl_mode

record search_request =
  search_query :: string
  search_type :: string
  numResults :: int
  contents :: search_contents
  queryVariants :: "string list option"

text \<open>Of the response's data the handler reads \<open>results\<close>, which may be missing.\<close>

record 'r search_data =
  results :: "'r list option"

text \<open>
  \<open>numResults || 10\<close> (an absent or zero number gives 10), \<open>livecrawl || 'fallback'\<close>,
  and \<open>queryVariants\<close> set only for a non-empty \<open>search_queries\<close>.
\<close>

definition deep_search_post :: "'a api_config_scheme option \<Rightarrow> string option \<Rightarrow> string
    \<Rightarrow> string list option \<Rightarrow> int option \<Rightarrow> livecrawl_mode option \<Rightarrow> search_request request" where
  "deep_search_post config env objective search_queries num live =
     \<lparr>baseURL = BASE_URL, url = ENDPOINT_SEARCH, headers = request_headers config env,
      timeout = 25000,
      body = \<lparr>search_query = objective, search_type = ''deep'',
               numResults = (case num of Some n \<Rightarrow> if n \<noteq> 0 then n else 10 | None \<Rightarrow> 10),
               contents = \<lparr>contents_text = False, contents_summary = True,
                            contents_livecrawl = (case live of Some m \<Rightarrow> m | None \<Rightarrow> Fallback)\<rparr>,
               queryVariants = (case search_queries of
                                  Some qs \<Rightarrow> if length qs > 0 then Some qs else None
                                | None \<Rightarrow> None)\<rparr>\<rparr>"

definition deep_search_catch :: "thrown \<Rightarrow> invocation_result" where
  "deep_search_catch e =
     (case e of
        AxiosError resp msg \<Rightarrow>
          \<lparr>content = [TextContent (''Deep search error ('' @ statusCode resp @ ''): ''
                        @ errorMessage resp msg)],
           isError = Some True\<rparr>
      | ErrorInstance msg \<Rightarrow>
          \<lparr>content = [TextContent (''Deep search error: '' @ msg)], isError = Some True\<rparr>
      | OtherValue str \<Rightarrow>
          \<lparr>content = [TextContent (''Deep search error: '' @ str)], isError = Some True\<rparr>)"

text \<open>
  The result for \<open>!response.data || !response.data.results ||
  response.data.results.length === 0\<close>, and the handler's mapping of the outcome: data
  that is missing, has no \<open>results\<close> or has an empty \<open>results\<close> array gives that
  result; any other data is returned as \<open>JSON.stringify(response.data, null, 2)\<close>, a
  function of the language taken as the parameter \<open>stringify\<close>.
\<close>

definition deep_search_empty :: invocation_result where
  "deep_search_empty =
     \<lparr>content = [TextContent ''No search results found. Please try a different query or adjust your search parameters.''],
      isError = None\<rparr>"

definition deep_search_result :: "(('r, 'm) search_data_scheme \<Rightarrow> string)
    \<Rightarrow> ('r, 'm) search_data_scheme option attempt \<Rightarrow> invocation_result" where
  "deep_search_result stringify a =
     (case a of
        Responded None \<Rightarrow> deep_search_empty
      | Responded (Some d) \<Rightarrow>
          (case results d of
             None \<Rightarrow> deep_search_empty
           | Some rs \<Rightarrow>
               if length rs = 0 then deep_search_empty
               else \<lparr>content = [TextContent (stringify d)], isError = None\<rparr>)
      | Threw e \<Rightarrow> deep_search_catch e)"

definition deep_search_handler :: "'a api_config_scheme option \<Rightarrow> string option
    \<Rightarrow> (search_request request \<Rightarrow> ('r, 'm) search_data_scheme option attempt)
    \<Rightarrow> (('r, 'm) search_data_scheme \<Rightarrow> string)
    \<Rightarrow> string \<Rightarrow> string list option \<Rightarrow> int option \<Rightarrow> livecrawl_mode option
    \<Rightarrow> invocation_result" where
  "deep_search_handler config env post stringify objective search_queries num live =
     deep_search_result stringify
       (post (deep_search_post config env objective search_queries num live))"

section \<open>The research task poll\<close>

subsection \<open>Structured payloads and their serialisation\<close>

text \<open>
  Modelled from the spec: the payload of a research task is a structured value (section 3),
  and a completed task without a report is surfaced as "a deterministic serialization of
  that object", such that "parsing it back yields the original object" (section 8). The
  code that serialises it (src/tools/deepResearchCheck.ts) is not among the sources. The
  payload is modelled as a JSON value with integer numbers, \<open>serialize\<close> writes it as
  compact JSON text, and \<open>parse\<close> reads such text back.
\<close>

datatype json =
    JNull
  | JBool bool
  | JNumber int
  | JString string
  | JArray "json list"
  | JObject "(string \<times> json) list"

text \<open>
  Modelled from the spec: the serialisation of strings (the code is missing, see above).
  A string is written between double quotes; the double quote and the backslash are
  escaped with a backslash, a control character as \<open>u00\<close> and two hexadecimal digits
  after a backslash.
\<close>

definition hex_digit :: "nat \<Rightarrow> char" where
  "hex_digit d = (if d < 10 then char_of (48 + d) else char_of (87 + d))"

definition escape_char :: "char \<Rightarrow> string" where
  "escape_char c =
     (if c = CHR 0x22 then [CHR 0x5C, CHR 0x22]
      else if c = CHR 0x5C then [CHR 0x5C, CHR 0x5C]
      else if (of_char c :: nat) < 32
        then [CHR 0x5C, CHR ''u'', CHR ''0'', CHR ''0'',
              hex_digit (of_char c div 16), hex_digit (of_char c mod 16)]
      else [c])"

definition quote :: "string \<Rightarrow> string" where
  "quote s = CHR 0x22 # concat (map escape_char s) @ [CHR 0x22]"

text \<open>
  Modelled from the spec: the serialisation of an integer number (the code is missing, see
  above), a minus sign for a negative one and the decimal digits.
\<close>

definition number_text :: "int \<Rightarrow> string" where
  "number_text i = (if i < 0 then CHR ''-'' # decimal (nat (- i)) else decimal (nat i))"

text \<open>
  Modelled from the spec: the "deterministic serialization" of a payload (the code is
  missing, see above), as compact JSON text.
\<close>

fun serialize :: "json \<Rightarrow> string" where
  "serialize JNull = ''null''"
| "serialize (JBool b) = (if b then ''true'' else ''false'')"
| "serialize (JNumber i) = number_text i"
| "serialize (JString s) = quote s"
| "serialize (JArray vs) = ''['' @ join '','' (map serialize vs) @ '']''"
| "serialize (JObject ms) =
     ''{'' @ join '','' (map (\<lambda>(k, v). quote k @ '':'' @ serialize v) ms) @ ''}''"


text \<open>
  Modelled from the spec: "parsing it back" (the code is missing, see above). The parser
  reads the text that \<open>serialize\<close> writes; \<open>parse\<close> gives the value when the
  whole text is one value, and nothing otherwise.
\<close>

definition hex_value :: "char \<Rightarrow> nat option" where
  "hex_value c =
     (let k = (of_char c :: nat) in
      if 48 \<le> k \<and> k \<le> 57 then Some (k - 48)
      else if 97 \<le> k \<and> k \<le> 102 then Some (k - 87)
      else None)"

definition unescape_unicode :: "char \<Rightarrow> char \<Rightarrow> char \<Rightarrow> char \<Rightarrow> char option" where
  "unescape_unicode a b c d =
     (case (hex_value a, hex_value b, hex_value c, hex_value d) of
        (Some h1, Some h2, Some h3, Some h4) \<Rightarrow>
          (if h1 = 0 \<and> h2 = 0 then Some (char_of (h3 * 16 + h4)) else None)
      | _ \<Rightarrow> None)"

text \<open>The characters of a string literal after its opening quote, up to the closing one.\<close>

fun parse_chars :: "string \<Rightarrow> (string \<times> string) option" where
  "parse_chars [] = None"
| "parse_chars (c # cs) =
     (if c = CHR 0x22 then Some ([], cs)
      else if c = CHR 0x5C then
        (case cs of
           [] \<Rightarrow> None
         | e # es \<Rightarrow>
             if e = CHR 0x22 \<or> e = CHR 0x5C then map_option (apfst ((#) e)) (parse_chars es)
             else if e = CHR ''u'' then
               (case es of
                  h1 # h2 # h3 # h4 # r \<Rightarrow>
                    (case unescape_unicode h1 h2 h3 h4 of
                       Some u \<Rightarrow> map_option (apfst ((#) u)) (parse_chars r)
                     | None \<Rightarrow> None)
                | _ \<Rightarrow> None)
             else None)
      else map_option (apfst ((#) c)) (parse_chars cs))"

definition is_digit :: "char \<Rightarrow> bool" where
  "is_digit c \<longleftrightarrow> 48 \<le> (of_char c :: nat) \<and> (of_char c :: nat) \<le> 57"

definition digits_value :: "string \<Rightarrow> nat" where
  "digits_value ds = foldl (\<lambda>a c. 10 * a + (of_char c - 48)) 0 ds"

definition parse_nat :: "string \<Rightarrow> (nat \<times> string) option" where
  "parse_nat s =
     (let ds = takeWhile is_digit s in
      if ds = [] then None else Some (digits_value ds, dropWhile is_digit s))"

definition parse_number :: "string \<Rightarrow> (json \<times> string) option" where
  "parse_number s =
     (case s of
        [] \<Rightarrow> None
      | c # cs \<Rightarrow>
          if c = CHR ''-'' then map_option (apfst (\<lambda>n. JNumber (- int n))) (parse_nat cs)
          else map_option (apfst (\<lambda>n. JNumber (int n))) (parse_nat s))"

definition parse_literal :: "string \<Rightarrow> json \<Rightarrow> string \<Rightarrow> (json \<times> string) option" where
  "parse_literal lit v s =
     (if take (length lit) s = lit then Some (v, drop (length lit) s) else None)"

text \<open>
  A value at the head of the text, with the rest of the text. The first argument bounds
  the number of nested calls; the length of the text is always enough.
\<close>

fun parse_value :: "nat \<Rightarrow> string \<Rightarrow> (json \<times> string) option"
  and parse_elements :: "nat \<Rightarrow> string \<Rightarrow> (json list \<times> string) option"
  and parse_members :: "nat \<Rightarrow> string \<Rightarrow> ((string \<times> json) list \<times> string) option"
where
  "parse_value 0 s = None"
| "parse_value (Suc n) s =
     (case s of
        [] \<Rightarrow> None
      | c # cs \<Rightarrow>
          if c = CHR ''n'' then parse_literal ''null'' JNull s
          else if c = CHR ''t'' then parse_literal ''true'' (JBool True) s
          else if c = CHR ''f'' then parse_literal ''false'' (JBool False) s
          else if c = CHR 0x22 then map_option (apfst JString) (parse_chars cs)
          else if c = CHR ''['' then
            (if cs \<noteq> [] \<and> hd cs = CHR '']'' then Some (JArray [], tl cs)
             else map_option (apfst JArray) (parse_elements n cs))
          else if c = CHR ''{'' then
            (if cs \<noteq> [] \<and> hd cs = CHR ''}'' then Some (JObject [], tl cs)
             else map_option (apfst JObject) (parse_members n cs))
          else parse_number s)"
| "parse_elements 0 s = None"
| "parse_elements (Suc n) s =
     (case parse_value n s of
        None \<Rightarrow> None
      | Some (v, r) \<Rightarrow>
          (case r of
             [] \<Rightarrow> None
           | c # r' \<Rightarrow>
               if c = CHR '','' then map_option (apfst ((#) v)) (parse_elements n r')
               else if c = CHR '']'' then Some ([v], r')
               else None))"
| "parse_members 0 s = None"
| "parse_members (Suc n) s =
     (case s of
        [] \<Rightarrow> None
      | q # s' \<Rightarrow>
          if q \<noteq> CHR 0x22 then None
          else
            (case parse_chars s' of
               None \<Rightarrow> None
             | Some (k, r) \<Rightarrow>
                 (case r of
                    [] \<Rightarrow> None
                  | c # r' \<Rightarrow>
                      if c \<noteq> CHR '':'' then None
                      else
                        (case parse_value n r' of
                           None \<Rightarrow> None
                         | Some (v, r2) \<Rightarrow>
                             (case r2 of
                                [] \<Rightarrow> None
                              | d # r3 \<Rightarrow>
                                  if d = CHR '','' then
                                    map_option (apfst ((#) (k, v))) (parse_members n r3)
                                  else if d = CHR ''}'' then Some ([(k, v)], r3)
                                  else None)))))"

definition parse :: "string \<Rightarrow> json option" where
  "parse s =
     (case parse_value (length s) s of
        Some (v, r) \<Rightarrow> if r = [] then Some v else None
      | None \<Rightarrow> None)"


text \<open>The text after a number does not go on with a digit.\<close>

definition ends_number :: "string \<Rightarrow> bool" where
  "ends_number rest \<longleftrightarrow> rest = [] \<or> \<not> is_digit (hd rest)"

text \<open>One member of an object, as \<open>serialize\<close> writes it.\<close>

definition member_text :: "string \<times> json \<Rightarrow> string" where
  "member_text = (\<lambda>(k, v). quote k @ '':'' @ serialize v)"

subsection \<open>The result of a poll\<close>

text \<open>
  Modelled from the spec: the snapshot of a research task (section 3), reduced to the
  fields the result of a poll depends on: the status and the optional data payload, an
  object. The type of the source (\<open>DeepResearchCheckResponse\<close>) has the same three
  status values and \<open>data?: { report?: string, [key: string]: any }\<close>.
\<close>

datatype task_status = Running | Completed | Failed

record snapshot =
  task_id :: string
  snapshot_status :: task_status
  snapshot_data :: "(string \<times> json) list option"

text \<open>The \<open>report\<close> of a data payload: the string under the key \<open>report\<close>, if any.\<close>

definition report_of :: "(string \<times> json) list \<Rightarrow> string option" where
  "report_of d = (case map_of d ''report'' of Some (JString r) \<Rightarrow> Some r | _ \<Rightarrow> None)"

text \<open>
  Modelled from the spec: the handler of \<open>deep_researcher_check\<close>
  (src/tools/deepResearchCheck.ts, imported by src/index.ts) is not among the sources.
  Section 4.3 of the specification gives its mapping of a snapshot to a result: a running
  task gives a "not ready" signal that is no failure; a completed task surfaces
  \<open>data.report\<close> or, if absent, the serialised payload; a completed task with no data
  at all is a malformed snapshot and an error; a failed task with no further field is
  reported as "failed, no further detail".
\<close>

definition poll_result :: "snapshot \<Rightarrow> invocation_result" where
  "poll_result snap =
     (case snapshot_status snap of
        Running \<Rightarrow> \<lparr>content = [TextContent ''not ready''], isError = None\<rparr>
      | Failed \<Rightarrow> \<lparr>content = [TextContent ''failed, no further detail''], isError = Some True\<rparr>
      | Completed \<Rightarrow>
          (case snapshot_data snap of
             None \<Rightarrow> \<lparr>content = [TextContent ''malformed snapshot''], isError = Some True\<rparr>
           | Some d \<Rightarrow>
               (case report_of d of
                  Some r \<Rightarrow> \<lparr>content = [TextContent r], isError = None\<rparr>
                | None \<Rightarrow> \<lparr>content = [TextContent (serialize (JObject d))], isError = None\<rparr>)))"

section \<open>Predicates of the specification\<close>

subsection \<open>Quantities the specification speaks of\<close>

text \<open>The ids of the registry, and those whose descriptor is enabled by default.\<close>

definition known_ids :: "string list" where
  "known_ids = map fst availableTools"

definition default_ids :: "string list" where
  "default_ids = map fst (filter (\<lambda>(id, tool). enabled tool) availableTools)"

text \<open>
  The normal form the specification asks of both shapes of the tool selection: the
  identifiers, trimmed, without the empty ones. It follows the specification, not the
  code, and is compared with \<open>parsedEnabledTools\<close> below.
\<close>

definition spec_normalize :: "tools_param \<Rightarrow> string list" where
  "spec_normalize v =
     (case v of
        ToolsString s \<Rightarrow> filter (\<lambda>t. t \<noteq> []) (map trim (split_comma s))
      | ToolsArray a \<Rightarrow> filter (\<lambda>t. t \<noteq> []) (map trim a))"

text \<open>
  The active sequence as the specification's data model words it: the configured list
  restricted to the known ids, in the order of the list.
\<close>

definition spec_active_sequence :: "string list \<Rightarrow> string list" where
  "spec_active_sequence ts = filter (\<lambda>t. t \<in> set known_ids) ts"

text \<open>
  A failure result embeds the remote status code: when the thrown value is an Axios error
  whose response has a status code (a positive number), the message contains its decimal
  numeral.
\<close>

definition embeds_status :: "thrown \<Rightarrow> string \<Rightarrow> bool" where
  "embeds_status e msg =
     (case e of
        AxiosError (Some r) m \<Rightarrow> status r \<noteq> 0 \<longrightarrow> sublist (decimal (status r)) msg
      | _ \<Rightarrow> True)"

section \<open>Properties of the registry\<close>


lemma registeredTools_log [simp]: "registeredTools (log msg st) = registeredTools st"
  by (simp add: log_def)

lemma bound_log [simp]: "bound (log msg st) = bound st"
  by (simp add: log_def)

lemma registeredTools_log_config [simp]:
  "registeredTools (log_config cfg st) = registeredTools st"
  by (simp add: log_config_def Let_def split: option.splits)

lemma bound_log_config [simp]: "bound (log_config cfg st) = bound st"
  by (simp add: log_config_def Let_def split: option.splits)

lemma registeredTools_log_registered [simp]:
  "registeredTools (log_registered cfg st) = registeredTools st"
  by (simp add: log_registered_def)

lemma bound_log_registered [simp]: "bound (log_registered cfg st) = bound st"
  by (simp add: log_registered_def)

lemma registeredTools_register_if [simp]:
  "registeredTools (register_if cfg toolId st) =
     registeredTools st @ filter (shouldRegisterTool cfg) [toolId]"
  by (simp add: register_if_def)

lemma bound_register_if [simp]:
  "bound (register_if cfg toolId st) = bound st @ filter (shouldRegisterTool cfg) [toolId]"
  by (simp add: register_if_def)

lemma filter_snoc1: "filter P xs @ filter P [x] = filter P (xs @ [x])"
  by simp

lemma registered_filter:
  "registeredTools (create_server cfg) = filter (shouldRegisterTool cfg) registration_order"
  unfolding create_server_def Let_def registration_order_def
  apply (simp only: registeredTools_log registeredTools_log_config registeredTools_log_registered
      registeredTools_register_if)
  apply (simp only: server_state.simps append_Nil filter_snoc1 append_Cons)
  done

lemma bound_filter:
  "bound (create_server cfg) = filter (shouldRegisterTool cfg) registration_order"
  unfolding create_server_def Let_def registration_order_def
  apply (simp only: bound_log bound_log_config bound_log_registered
      bound_register_if)
  apply (simp only: server_state.simps append_Nil filter_snoc1 append_Cons)
  done


lemma default_ids_eq: "default_ids = [''web_search_exa'', ''get_code_context_exa'']"
  by (simp add: default_ids_def availableTools_def)

lemma filter_default_enabled:
  "filter default_enabled registration_order = [''web_search_exa'', ''get_code_context_exa'']"
  by (simp add: default_enabled_def availableTools_def registration_order_def)

lemma set_registration_order: "set registration_order = set known_ids"
  by (simp add: registration_order_def known_ids_def availableTools_def insert_commute)

lemma distinct_registration_order: "distinct registration_order"
  by (simp add: registration_order_def)

lemma distinct_known_ids: "distinct known_ids"
  by (simp add: known_ids_def availableTools_def)


lemma dropWhile_rev_dropWhile_rev:
  assumes "xs = [] \<or> \<not> P (hd xs)"
  shows "dropWhile P (rev (dropWhile P (rev xs))) = rev (dropWhile P (rev xs))"
proof (cases xs)
  case Nil
  then show ?thesis by simp
next
  case (Cons x xs')
  with assms have "\<not> P x" by simp
  then have "dropWhile P (rev xs' @ [x]) = dropWhile P (rev xs') @ [x]"
    by (rule dropWhile_append3)
  with Cons \<open>\<not> P x\<close> show ?thesis by simp
qed

lemma dropWhile_head: "dropWhile P xs = [] \<or> \<not> P (hd (dropWhile P xs))"
  using hd_dropWhile [of P xs] by blast

lemma dropWhile_trim: "dropWhile isWhiteSpace (trim s) = trim s"
  unfolding trim_def by (rule dropWhile_rev_dropWhile_rev) (rule dropWhile_head)

lemma trim_idem: "trim (trim s) = trim s"
proof -
  have "trim (trim s) = rev (dropWhile isWhiteSpace (rev (trim s)))"
    by (simp add: trim_def [of "trim s"] dropWhile_trim)
  also have "\<dots> = trim s"
    by (simp add: trim_def dropWhile_idem)
  finally show ?thesis .
qed

lemma trim_no_outer_space:
  "trim s = [] \<or> (\<not> isWhiteSpace (hd (trim s)) \<and> \<not> isWhiteSpace (last (trim s)))"
proof (cases "trim s = []")
  case True
  then show ?thesis by simp
next
  case False
  have "\<not> isWhiteSpace (hd (trim s))"
    using dropWhile_head [of isWhiteSpace "trim s"] False by (simp add: dropWhile_trim)
  moreover have "\<not> isWhiteSpace (last (trim s))"
  proof -
    have "rev (trim s) = dropWhile isWhiteSpace (rev (dropWhile isWhiteSpace s))"
      by (simp add: trim_def)
    moreover from False have "rev (trim s) \<noteq> []" by simp
    ultimately have "\<not> isWhiteSpace (hd (rev (trim s)))"
      using dropWhile_head [of isWhiteSpace "rev (dropWhile isWhiteSpace s)"] by metis
    with False show ?thesis by (simp add: hd_rev)
  qed
  ultimately show ?thesis by simp
qed




lemma shouldRegisterTool_default:
  assumes "parsedEnabledTools cfg = None \<or> parsedEnabledTools cfg = Some []"
  shows "shouldRegisterTool cfg = default_enabled"
  using assms by (auto simp: shouldRegisterTool_def fun_eq_iff)

lemma shouldRegisterTool_member:
  assumes "parsedEnabledTools cfg = Some ts" and "ts \<noteq> []"
  shows "shouldRegisterTool cfg = (\<lambda>toolId. toolId \<in> set ts)"
  using assms by (auto simp: shouldRegisterTool_def fun_eq_iff)

lemma create_server_cong:
  assumes "parsedEnabledTools c1 = parsedEnabledTools c2" and "debug c1 = debug c2"
  shows "create_server c1 = create_server c2"
proof -
  have "shouldRegisterTool c1 = shouldRegisterTool c2"
    using assms(1) by (simp add: shouldRegisterTool_def fun_eq_iff)
  then have "register_if c1 = register_if c2"
    by (simp add: register_if_def fun_eq_iff)
  moreover have "log_config c1 = log_config c2"
    using assms by (simp add: log_config_def fun_eq_iff)
  moreover have "log_registered c1 = log_registered c2"
    using assms by (simp add: log_registered_def fun_eq_iff)
  ultimately show ?thesis
    by (simp only: create_server_def)
qed

lemma parsed_no_selection:
  "parsedEnabledTools (cfg\<lparr>enabledTools := None, tools := None\<rparr>) = None"
  by (simp add: parsedEnabledTools_def toolsParam_def)

text \<open>
  Claim C1, as the code has it. When the tool selection in force (\<open>config.tools ||
  config.enabledTools\<close>) is absent, or is a string whose pieces between the commas are
  all empty after trimming (such as \<open>"  , ,"\<close>), or is the empty array, the registered
  tools are exactly the ids whose registry entry has \<open>enabled: true\<close>, the same as for
  the configuration with no selection at all. An array is not trimmed or filtered, so an
  array of blank strings is outside this statement (see the counterexample below).
\<close>
theorem C1_empty_selection_defaults:
  assumes "case toolsParam cfg of
             None \<Rightarrow> True
           | Some (ToolsString s) \<Rightarrow>
               filter (\<lambda>tool. length tool > 0) (map trim (split_comma s)) = []
           | Some (ToolsArray a) \<Rightarrow> a = []"
  shows "set (registeredTools (create_server cfg)) = set default_ids \<and>
         registeredTools (create_server cfg) =
           registeredTools (create_server (cfg\<lparr>enabledTools := None, tools := None\<rparr>))"
proof -
  from assms have "parsedEnabledTools cfg = None \<or> parsedEnabledTools cfg = Some []"
    by (auto simp: parsedEnabledTools_def parse_tools_string_def
        split: option.splits tools_param.splits)
  then have "shouldRegisterTool cfg = default_enabled"
    by (rule shouldRegisterTool_default)
  then have r: "registeredTools (create_server cfg) = filter default_enabled registration_order"
    by (simp add: registered_filter)
  have "shouldRegisterTool (cfg\<lparr>enabledTools := None, tools := None\<rparr>) = default_enabled"
    by (rule shouldRegisterTool_default) (simp add: parsed_no_selection)
  then have "registeredTools (create_server (cfg\<lparr>enabledTools := None, tools := None\<rparr>))
      = filter default_enabled registration_order"
    by (simp add: registered_filter)
  with r show ?thesis
    by (simp add: filter_default_enabled default_ids_eq)
qed

theorem C1_empty_selection_defaults_witness:
  "(case toolsParam \<lparr>exaApiKey = None, enabledTools = Some (ToolsString ''  , ,''),
                      tools = None, debug = False\<rparr> of
      None \<Rightarrow> True
    | Some (ToolsString s) \<Rightarrow>
        filter (\<lambda>tool. length tool > 0) (map trim (split_comma s)) = []
    | Some (ToolsArray a) \<Rightarrow> a = [])
   \<and> set (registeredTools (create_server
          \<lparr>exaApiKey = None, enabledTools = Some (ToolsString ''  , ,''),
           tools = None, debug = False\<rparr>))
       = {''web_search_exa'', ''get_code_context_exa''}"
proof -
  have h: "case toolsParam \<lparr>exaApiKey = None, enabledTools = Some (ToolsString ''  , ,''),
                      tools = None, debug = False\<rparr> of
      None \<Rightarrow> True
    | Some (ToolsString s) \<Rightarrow>
        filter (\<lambda>tool. length tool > 0) (map trim (split_comma s)) = []
    | Some (ToolsArray a) \<Rightarrow> a = []"
    by (simp add: toolsParam_def split_comma_def trim_def isWhiteSpace_def)
  from C1_empty_selection_defaults [OF h]
  have "set (registeredTools (create_server
          \<lparr>exaApiKey = None, enabledTools = Some (ToolsString ''  , ,''),
           tools = None, debug = False\<rparr>)) = set default_ids" ..
  then have c: "set (registeredTools (create_server
          \<lparr>exaApiKey = None, enabledTools = Some (ToolsString ''  , ,''),
           tools = None, debug = False\<rparr>)) = {''web_search_exa'', ''get_code_context_exa''}"
    by (simp only: default_ids_eq list.set)
  from h c show ?thesis ..
qed

text \<open>
  Claim C1 as stated fails for the array form: \<open>[""]\<close> normalises to the empty list in
  the specification's sense, yet the code takes the array as it is, tests membership in
  it and registers nothing, while two tools are enabled by default.
\<close>
theorem C1_blank_array_counterexample:
  "spec_normalize (ToolsArray ['''']) = []
   \<and> toolsParam \<lparr>exaApiKey = None, enabledTools = Some (ToolsArray ['''']),
                 tools = None, debug = False\<rparr> = Some (ToolsArray [''''])
   \<and> registeredTools (create_server
         \<lparr>exaApiKey = None, enabledTools = Some (ToolsArray ['''']),
          tools = None, debug = False\<rparr>) = []
   \<and> set default_ids \<noteq> set []"
  by (simp add: spec_normalize_def trim_def toolsParam_def registered_filter
      shouldRegisterTool_def parsedEnabledTools_def registration_order_def default_ids_eq)

text \<open>
  Claim C2. The registered tools are always among the ids of the registry; for a
  non-empty parsed selection they are exactly the requested ids that the registry knows.
  The computation is a total function with no error branch: an unknown id is dropped.
\<close>
theorem C2_active_subset_known:
  "set (registeredTools (create_server cfg)) \<subseteq> set known_ids \<and>
   (parsedEnabledTools cfg = Some ts \<longrightarrow> ts \<noteq> [] \<longrightarrow>
      set (registeredTools (create_server cfg)) = set ts \<inter> set known_ids)"
proof -
  have "set (registeredTools (create_server cfg)) \<subseteq> set known_ids"
    by (auto simp: registered_filter set_registration_order [symmetric])
  moreover have "set (registeredTools (create_server cfg)) = set ts \<inter> set known_ids"
    if "parsedEnabledTools cfg = Some ts" and "ts \<noteq> []"
    using shouldRegisterTool_member [OF that]
    by (auto simp: registered_filter set_registration_order [symmetric])
  ultimately show ?thesis by blast
qed

theorem C2_active_subset_known_witness:
  "parsedEnabledTools \<lparr>exaApiKey = None,
        enabledTools = Some (ToolsArray [''web_search_exa'', ''bogus_tool'']),
        tools = None, debug = False\<rparr> = Some [''web_search_exa'', ''bogus_tool'']
   \<and> [''web_search_exa'', ''bogus_tool''] \<noteq> []
   \<and> set (registeredTools (create_server \<lparr>exaApiKey = None,
        enabledTools = Some (ToolsArray [''web_search_exa'', ''bogus_tool'']),
        tools = None, debug = False\<rparr>)) = {''web_search_exa''}"
proof -
  have h: "parsedEnabledTools \<lparr>exaApiKey = None,
        enabledTools = Some (ToolsArray [''web_search_exa'', ''bogus_tool'']),
        tools = None, debug = False\<rparr> = Some [''web_search_exa'', ''bogus_tool'']"
    by (simp add: parsedEnabledTools_def toolsParam_def)
  have k: "set [''web_search_exa'', ''bogus_tool''] \<inter> set known_ids = {''web_search_exa''}"
    by (simp add: known_ids_def availableTools_def)
  show ?thesis
    using h k C2_active_subset_known [of _ "[''web_search_exa'', ''bogus_tool'']"]
    by simp
qed




lemma parse_tools_string_clean:
  "t \<in> set (parse_tools_string s) \<Longrightarrow> t \<noteq> [] \<and> trim t = t"
  by (auto simp: parse_tools_string_def trim_idem)

lemma parsed_tools_only:
  "parsedEnabledTools (cfg\<lparr>tools := Some v, enabledTools := None\<rparr>) =
   parsedEnabledTools (cfg\<lparr>tools := None, enabledTools := Some v\<rparr>)"
  by (cases v) (simp_all add: parsedEnabledTools_def toolsParam_def)

lemma parsed_array:
  "parsedEnabledTools (cfg\<lparr>tools := Some (ToolsArray a), enabledTools := None\<rparr>) = Some a"
  by (simp add: parsedEnabledTools_def toolsParam_def)

lemma parsed_string:
  "parsedEnabledTools (cfg\<lparr>tools := Some (ToolsString s), enabledTools := None\<rparr>) =
     (if s = [] then None else Some (parse_tools_string s))"
  by (simp add: parsedEnabledTools_def toolsParam_def)

lemma parse_tools_string_Nil: "parse_tools_string [] = []"
  by (simp add: parse_tools_string_def split_comma_def trim_def)

lemma shouldRegisterTool_string_array:
  assumes "set a = set (parse_tools_string s)"
  shows "shouldRegisterTool (cfg\<lparr>tools := Some (ToolsArray a), enabledTools := None\<rparr>) =
         shouldRegisterTool (cfg\<lparr>tools := Some (ToolsString s), enabledTools := None\<rparr>)"
proof (cases "parse_tools_string s = []")
  case True
  with assms have "a = []" by simp
  then have "shouldRegisterTool (cfg\<lparr>tools := Some (ToolsArray a), enabledTools := None\<rparr>)
      = default_enabled"
    by (intro shouldRegisterTool_default) (simp add: parsed_array)
  moreover have "shouldRegisterTool (cfg\<lparr>tools := Some (ToolsString s), enabledTools := None\<rparr>)
      = default_enabled"
    using True by (intro shouldRegisterTool_default) (simp add: parsed_string)
  ultimately show ?thesis by simp
next
  case False
  then have "s \<noteq> []" using parse_tools_string_Nil by auto
  with False have "shouldRegisterTool (cfg\<lparr>tools := Some (ToolsString s), enabledTools := None\<rparr>)
      = (\<lambda>toolId. toolId \<in> set (parse_tools_string s))"
    by (intro shouldRegisterTool_member) (simp_all add: parsed_string)
  moreover from False assms have "a \<noteq> []" by auto
  then have "shouldRegisterTool (cfg\<lparr>tools := Some (ToolsArray a), enabledTools := None\<rparr>)
      = (\<lambda>toolId. toolId \<in> set a)"
    by (intro shouldRegisterTool_member) (simp_all add: parsed_array)
  ultimately show ?thesis using assms by simp
qed

text \<open>
  Claim C5, as the code has it. A value given as \<open>tools\<close> and the same value given as
  \<open>enabledTools\<close> build the same server state. The string form is parsed into trimmed,
  non-empty identifiers; the array form is taken as it is. An array that holds the same
  identifiers as the parsed string gives the same registered tools as the string.
\<close>
theorem C5_alias_and_forms:
  "create_server (cfg\<lparr>tools := Some v, enabledTools := None\<rparr>) =
     create_server (cfg\<lparr>tools := None, enabledTools := Some v\<rparr>)
   \<and> (\<forall>t \<in> set (parse_tools_string s). t \<noteq> [] \<and> trim t = t)
   \<and> (set a = set (parse_tools_string s) \<longrightarrow>
        registeredTools (create_server (cfg\<lparr>tools := Some (ToolsArray a), enabledTools := None\<rparr>)) =
        registeredTools (create_server (cfg\<lparr>tools := Some (ToolsString s), enabledTools := None\<rparr>)))"
proof -
  have "create_server (cfg\<lparr>tools := Some v, enabledTools := None\<rparr>) =
     create_server (cfg\<lparr>tools := None, enabledTools := Some v\<rparr>)"
    by (rule create_server_cong) (simp_all add: parsed_tools_only)
  moreover have "\<forall>t \<in> set (parse_tools_string s). t \<noteq> [] \<and> trim t = t"
    using parse_tools_string_clean by blast
  moreover have "registeredTools (create_server (cfg\<lparr>tools := Some (ToolsArray a), enabledTools := None\<rparr>)) =
        registeredTools (create_server (cfg\<lparr>tools := Some (ToolsString s), enabledTools := None\<rparr>))"
    if "set a = set (parse_tools_string s)"
    using shouldRegisterTool_string_array [OF that] by (simp only: registered_filter)
  ultimately show ?thesis by blast
qed

theorem C5_alias_and_forms_witness:
  "parse_tools_string '' web_search_exa , crawling_exa,'' = [''web_search_exa'', ''crawling_exa'']
   \<and> set [''crawling_exa'', ''web_search_exa''] = set (parse_tools_string '' web_search_exa , crawling_exa,'')
   \<and> registeredTools (create_server \<lparr>exaApiKey = None, enabledTools = None,
         tools = Some (ToolsArray [''crawling_exa'', ''web_search_exa'']), debug = False\<rparr>) =
       registeredTools (create_server \<lparr>exaApiKey = None, enabledTools = None,
         tools = Some (ToolsString '' web_search_exa , crawling_exa,''), debug = False\<rparr>)
   \<and> create_server \<lparr>exaApiKey = None, enabledTools = None,
         tools = Some (ToolsString '' web_search_exa , crawling_exa,''), debug = False\<rparr> =
       create_server \<lparr>exaApiKey = None,
         enabledTools = Some (ToolsString '' web_search_exa , crawling_exa,''),
         tools = None, debug = False\<rparr>"
proof -
  have p: "parse_tools_string '' web_search_exa , crawling_exa,'' = [''web_search_exa'', ''crawling_exa'']"
    by code_simp
  have q: "set [''crawling_exa'', ''web_search_exa''] = set (parse_tools_string '' web_search_exa , crawling_exa,'')"
    unfolding p by (simp add: insert_commute)
  from C5_alias_and_forms [where cfg = "\<lparr>exaApiKey = None, enabledTools = None, tools = None, debug = False\<rparr>"
      and v = "ToolsString '' web_search_exa , crawling_exa,''"
      and s = "'' web_search_exa , crawling_exa,''"
      and a = "[''crawling_exa'', ''web_search_exa'']"] q
  have "registeredTools (create_server \<lparr>exaApiKey = None, enabledTools = None,
         tools = Some (ToolsArray [''crawling_exa'', ''web_search_exa'']), debug = False\<rparr>) =
       registeredTools (create_server \<lparr>exaApiKey = None, enabledTools = None,
         tools = Some (ToolsString '' web_search_exa , crawling_exa,''), debug = False\<rparr>)
   \<and> create_server \<lparr>exaApiKey = None, enabledTools = None,
         tools = Some (ToolsString '' web_search_exa , crawling_exa,''), debug = False\<rparr> =
       create_server \<lparr>exaApiKey = None,
         enabledTools = Some (ToolsString '' web_search_exa , crawling_exa,''),
         tools = None, debug = False\<rparr>"
    by simp
  with p q show ?thesis by blast
qed

text \<open>
  Claim C5 as stated fails: the string \<open>" web_search_exa"\<close> and the array
  \<open>[" web_search_exa"]\<close> have the same normal form in the specification's sense, but the
  code trims only the string, so the array selects nothing.
\<close>
theorem C5_untrimmed_array_counterexample:
  "spec_normalize (ToolsString '' web_search_exa'') = spec_normalize (ToolsArray ['' web_search_exa''])
   \<and> registeredTools (create_server \<lparr>exaApiKey = None, enabledTools = None,
         tools = Some (ToolsString '' web_search_exa''), debug = False\<rparr>) = [''web_search_exa'']
   \<and> registeredTools (create_server \<lparr>exaApiKey = None, enabledTools = None,
         tools = Some (ToolsArray ['' web_search_exa'']), debug = False\<rparr>) = []"
  by code_simp


text \<open>
  Claim C6, as the code has it. For a non-empty parsed selection the registered tools
  depend only on the set of selected ids, not on their order or repetition; the sequence
  \<open>registeredTools\<close>, which the debug message \<open>Registered n tools: ...\<close> prints, lists
  the selected ids in the fixed order of the registration blocks of the entry point.
\<close>
theorem C6_registration_order_fixed:
  assumes "parsedEnabledTools cfg = Some ts" and "ts \<noteq> []"
    and "parsedEnabledTools cfg' = Some ts'" and "set ts' = set ts"
  shows "registeredTools (create_server cfg') = registeredTools (create_server cfg)
    \<and> registeredTools (create_server cfg) = filter (\<lambda>t. t \<in> set ts) registration_order
    \<and> (debug cfg \<longrightarrow>
         last (logged (create_server cfg)) =
           ''Registered '' @ decimal (length (registeredTools (create_server cfg))) @ '' tools: ''
             @ join '', '' (registeredTools (create_server cfg)))"
proof -
  from assms(2,4) have "ts' \<noteq> []" by auto
  have a: "registeredTools (create_server cfg) = filter (\<lambda>t. t \<in> set ts) registration_order"
    using shouldRegisterTool_member [OF assms(1,2)] by (simp add: registered_filter)
  have b: "registeredTools (create_server cfg') = filter (\<lambda>t. t \<in> set ts') registration_order"
    using shouldRegisterTool_member [OF assms(3) \<open>ts' \<noteq> []\<close>] by (simp add: registered_filter)
  have c: "last (logged (create_server cfg)) =
           ''Registered '' @ decimal (length (registeredTools (create_server cfg))) @ '' tools: ''
             @ join '', '' (registeredTools (create_server cfg))" if "debug cfg"
    using that by (simp add: create_server_def Let_def log_registered_def log_def)
  from a b c assms(4) show ?thesis by simp
qed


theorem C6_registration_order_fixed_witness:
  "parsedEnabledTools \<lparr>exaApiKey = None,
       enabledTools = Some (ToolsArray [''get_code_context_exa'', ''web_search_exa'']),
       tools = None, debug = True\<rparr> = Some [''get_code_context_exa'', ''web_search_exa'']
   \<and> [''get_code_context_exa'', ''web_search_exa''] \<noteq> []
   \<and> parsedEnabledTools \<lparr>exaApiKey = None, enabledTools = None,
       tools = Some (ToolsString ''web_search_exa, get_code_context_exa''), debug = False\<rparr>
       = Some [''web_search_exa'', ''get_code_context_exa'']
   \<and> set [''web_search_exa'', ''get_code_context_exa''] = set [''get_code_context_exa'', ''web_search_exa'']
   \<and> debug \<lparr>exaApiKey = None,
       enabledTools = Some (ToolsArray [''get_code_context_exa'', ''web_search_exa'']),
       tools = None, debug = True\<rparr>
   \<and> registeredTools (create_server \<lparr>exaApiKey = None, enabledTools = None,
       tools = Some (ToolsString ''web_search_exa, get_code_context_exa''), debug = False\<rparr>)
     = registeredTools (create_server \<lparr>exaApiKey = None,
       enabledTools = Some (ToolsArray [''get_code_context_exa'', ''web_search_exa'']),
       tools = None, debug = True\<rparr>)"
proof -
  have h1: "parsedEnabledTools \<lparr>exaApiKey = None,
       enabledTools = Some (ToolsArray [''get_code_context_exa'', ''web_search_exa'']),
       tools = None, debug = True\<rparr> = Some [''get_code_context_exa'', ''web_search_exa'']"
    by code_simp
  have h2: "[''get_code_context_exa'', ''web_search_exa''] \<noteq> []"
    by simp
  have h3: "parsedEnabledTools \<lparr>exaApiKey = None, enabledTools = None,
       tools = Some (ToolsString ''web_search_exa, get_code_context_exa''), debug = False\<rparr>
       = Some [''web_search_exa'', ''get_code_context_exa'']"
    by code_simp
  have h4: "set [''web_search_exa'', ''get_code_context_exa''] = set [''get_code_context_exa'', ''web_search_exa'']"
    by (simp add: insert_commute)
  have h5: "debug \<lparr>exaApiKey = None,
       enabledTools = Some (ToolsArray [''get_code_context_exa'', ''web_search_exa'']),
       tools = None, debug = True\<rparr>"
    by simp
  from C6_registration_order_fixed [OF h1 h2 h3 h4]
  have c: "registeredTools (create_server \<lparr>exaApiKey = None, enabledTools = None,
       tools = Some (ToolsString ''web_search_exa, get_code_context_exa''), debug = False\<rparr>)
     = registeredTools (create_server \<lparr>exaApiKey = None,
       enabledTools = Some (ToolsArray [''get_code_context_exa'', ''web_search_exa'']),
       tools = None, debug = True\<rparr>)" ..
  from h1 h2 h3 h4 h5 c show ?thesis by (intro conjI)
qed

text \<open>
  Claim C6 as stated fails: for the selection \<open>get_code_context_exa, web_search_exa\<close>
  the registration message lists \<open>web_search_exa\<close> first, not in the order configured.
\<close>
theorem C6_input_order_counterexample:
  "parsedEnabledTools \<lparr>exaApiKey = None,
       enabledTools = Some (ToolsArray [''get_code_context_exa'', ''web_search_exa'']),
       tools = None, debug = True\<rparr> = Some [''get_code_context_exa'', ''web_search_exa'']
   \<and> spec_active_sequence [''get_code_context_exa'', ''web_search_exa'']
       = [''get_code_context_exa'', ''web_search_exa'']
   \<and> registeredTools (create_server \<lparr>exaApiKey = None,
       enabledTools = Some (ToolsArray [''get_code_context_exa'', ''web_search_exa'']),
       tools = None, debug = True\<rparr>) = [''web_search_exa'', ''get_code_context_exa'']
   \<and> last (logged (create_server \<lparr>exaApiKey = None,
       enabledTools = Some (ToolsArray [''get_code_context_exa'', ''web_search_exa'']),
       tools = None, debug = True\<rparr>))
       = ''Registered 2 tools: web_search_exa, get_code_context_exa''
   \<and> registeredTools (create_server \<lparr>exaApiKey = None,
       enabledTools = Some (ToolsArray [''get_code_context_exa'', ''web_search_exa'']),
       tools = None, debug = True\<rparr>)
       \<noteq> spec_active_sequence [''get_code_context_exa'', ''web_search_exa'']"
  by code_simp

text \<open>
  Claim C8. For every configuration, duplicates in the selection included, the register
  function of each capability is called at most once and \<open>registeredTools\<close> has no
  duplicate id.
\<close>
theorem C8_registered_once:
  "distinct (registeredTools (create_server cfg)) \<and> distinct (bound (create_server cfg))
   \<and> bound (create_server cfg) = registeredTools (create_server cfg)"
  by (simp add: registered_filter bound_filter distinct_registration_order)

lemma C8_duplicates_example:
  "registeredTools (create_server \<lparr>exaApiKey = None,
       enabledTools = Some (ToolsArray [''web_search_exa'', ''web_search_exa'', ''crawling_exa'',
                                        ''web_search_exa'']),
       tools = None, debug = False\<rparr>) = [''web_search_exa'', ''crawling_exa'']"
  by code_simp

lemma entry_id_toolsList: "map entry_id (toolsList st) = known_ids"
  by (simp add: toolsList_def known_ids_def case_prod_unfold comp_def)

lemma registered_member_iff:
  assumes "toolId \<in> set known_ids"
  shows "toolId \<in> set (registeredTools (create_server cfg)) \<longleftrightarrow> shouldRegisterTool cfg toolId"
  using assms by (simp add: registered_filter set_registration_order)

text \<open>
  Claim C10. The array \<open>toolsList\<close> of the resource \<open>tools_list\<close> has one entry per id of
  the registry, in the order of the registry, and the entry's \<open>enabled\<close> flag is true
  exactly when the id is in \<open>registeredTools\<close>, that is exactly when
  \<open>shouldRegisterTool\<close> accepted it at startup.
\<close>
theorem C10_tools_list_flags:
  "map entry_id (toolsList (create_server cfg)) = known_ids \<and>
   (\<forall>e \<in> set (toolsList (create_server cfg)).
      entry_enabled e = (entry_id e \<in> set (registeredTools (create_server cfg)))
      \<and> entry_enabled e = shouldRegisterTool cfg (entry_id e))"
proof -
  have "entry_enabled e = (entry_id e \<in> set (registeredTools (create_server cfg)))
      \<and> entry_enabled e = shouldRegisterTool cfg (entry_id e)"
    if "e \<in> set (toolsList (create_server cfg))" for e
  proof -
    from that have "entry_id e \<in> set (map entry_id (toolsList (create_server cfg)))"
      by simp
    then have k: "entry_id e \<in> set known_ids"
      by (simp only: entry_id_toolsList)
    from that have "entry_enabled e = (entry_id e \<in> set (registeredTools (create_server cfg)))"
      by (auto simp: toolsList_def)
    with registered_member_iff [OF k] show ?thesis by simp
  qed
  then have "\<forall>e \<in> set (toolsList (create_server cfg)).
      entry_enabled e = (entry_id e \<in> set (registeredTools (create_server cfg)))
      \<and> entry_enabled e = shouldRegisterTool cfg (entry_id e)"
    by blast
  with entry_id_toolsList show ?thesis by blast
qed

theorem C10_tools_list_flags_witness:
  "\<lparr>entry_id = ''crawling_exa'', entry_name = ''Web Crawling'',
     entry_description = ''Extract content from specific URLs'', entry_enabled = True\<rparr>
     \<in> set (toolsList (create_server \<lparr>exaApiKey = None,
          enabledTools = Some (ToolsString ''crawling_exa, web_search_exa''),
          tools = None, debug = False\<rparr>))
   \<and> shouldRegisterTool \<lparr>exaApiKey = None,
          enabledTools = Some (ToolsString ''crawling_exa, web_search_exa''),
          tools = None, debug = False\<rparr> ''crawling_exa''
   \<and> map (\<lambda>e. (entry_id e, entry_enabled e))
       (toolsList (create_server \<lparr>exaApiKey = None,
          enabledTools = Some (ToolsString ''crawling_exa, web_search_exa''),
          tools = None, debug = False\<rparr>))
   = [(''web_search_exa'', True), (''get_code_context_exa'', False), (''crawling_exa'', True),
      (''deep_researcher_start'', False), (''deep_researcher_check'', False),
      (''linkedin_search_exa'', False), (''company_research_exa'', False)]"
proof -
  have m: "\<lparr>entry_id = ''crawling_exa'', entry_name = ''Web Crawling'',
     entry_description = ''Extract content from specific URLs'', entry_enabled = True\<rparr>
     \<in> set (toolsList (create_server \<lparr>exaApiKey = None,
          enabledTools = Some (ToolsString ''crawling_exa, web_search_exa''),
          tools = None, debug = False\<rparr>))"
    by code_simp
  have v: "map (\<lambda>e. (entry_id e, entry_enabled e))
       (toolsList (create_server \<lparr>exaApiKey = None,
          enabledTools = Some (ToolsString ''crawling_exa, web_search_exa''),
          tools = None, debug = False\<rparr>))
   = [(''web_search_exa'', True), (''get_code_context_exa'', False), (''crawling_exa'', True),
      (''deep_researcher_start'', False), (''deep_researcher_check'', False),
      (''linkedin_search_exa'', False), (''company_research_exa'', False)]"
    by code_simp
  from C10_tools_list_flags [of "\<lparr>exaApiKey = None,
          enabledTools = Some (ToolsString ''crawling_exa, web_search_exa''),
          tools = None, debug = False\<rparr>"] m
  have "entry_enabled \<lparr>entry_id = ''crawling_exa'', entry_name = ''Web Crawling'',
     entry_description = ''Extract content from specific URLs'', entry_enabled = True\<rparr>
    = shouldRegisterTool \<lparr>exaApiKey = None,
          enabledTools = Some (ToolsString ''crawling_exa, web_search_exa''),
          tools = None, debug = False\<rparr> (entry_id \<lparr>entry_id = ''crawling_exa'', entry_name = ''Web Crawling'',
     entry_description = ''Extract content from specific URLs'', entry_enabled = True\<rparr>)"
    by blast
  then have r: "shouldRegisterTool \<lparr>exaApiKey = None,
          enabledTools = Some (ToolsString ''crawling_exa, web_search_exa''),
          tools = None, debug = False\<rparr> ''crawling_exa''"
    by simp
  from m r v show ?thesis by (intro conjI)
qed

section \<open>Properties of the handlers\<close>


lemma sublist_middle: "sublist xs (ps @ xs @ ss)"
  by (auto simp: sublist_def)

lemma exa_code_catch_error:
  "\<exists>msg. exa_code_catch e = \<lparr>content = [TextContent msg], isError = Some True\<rparr>
         \<and> embeds_status e msg"
proof (cases e)
  case (AxiosError resp m)
  show ?thesis
  proof (cases resp)
    case None
    with AxiosError show ?thesis
      by (simp add: exa_code_catch_def embeds_status_def)
  next
    case (Some r)
    have "sublist (decimal (status r))
        (''Code search error ('' @ statusCode (Some r) @ ''): ''
            @ errorMessage (Some r) m @ ''. Please check your query and try again.'')"
      if "status r \<noteq> 0"
    proof -
      from that have "statusCode (Some r) = decimal (status r)"
        by (simp add: statusCode_def)
      then show ?thesis by (simp only: sublist_middle)
    qed
    with AxiosError Some show ?thesis
      by (simp add: exa_code_catch_def embeds_status_def)
  qed
next
  case (ErrorInstance m)
  then show ?thesis by (simp add: exa_code_catch_def embeds_status_def)
next
  case (OtherValue m)
  then show ?thesis by (simp add: exa_code_catch_def embeds_status_def)
qed

lemma deep_search_catch_error:
  "\<exists>msg. deep_search_catch e = \<lparr>content = [TextContent msg], isError = Some True\<rparr>
         \<and> embeds_status e msg"
proof (cases e)
  case (AxiosError resp m)
  show ?thesis
  proof (cases resp)
    case None
    with AxiosError show ?thesis
      by (simp add: deep_search_catch_def embeds_status_def)
  next
    case (Some r)
    have "sublist (decimal (status r))
        (''Deep search error ('' @ statusCode (Some r) @ ''): '' @ errorMessage (Some r) m)"
      if "status r \<noteq> 0"
    proof -
      from that have "statusCode (Some r) = decimal (status r)"
        by (simp add: statusCode_def)
      then show ?thesis by (simp only: sublist_middle)
    qed
    with AxiosError Some show ?thesis
      by (simp add: deep_search_catch_def embeds_status_def)
  qed
next
  case (ErrorInstance m)
  then show ?thesis by (simp add: deep_search_catch_def embeds_status_def)
next
  case (OtherValue m)
  then show ?thesis by (simp add: deep_search_catch_def embeds_status_def)
qed

text \<open>
  Claim C4. Whatever is thrown inside the \<open>try\<close> block of a handler (an Axios error
  with or without a response, another \<open>Error\<close>, any other value), the handler returns a
  result with \<open>isError: true\<close> whose content is one text block; when the error carries
  a response with a status code, the text contains the decimal numeral of that code.
  Every thrown value is mapped to a result, so none leaves the handler. The theorem is
  stated for the two handlers of src/tools: \<open>get_code_context_exa\<close> and
  \<open>deep_search_exa\<close>.
\<close>
theorem C4_failures_become_error_results:
  assumes "post (exa_code_post config env q n) = Threw e"
    and "post' (deep_search_post config env objective search_queries num live) = Threw e'"
  shows "(\<exists>msg. exa_code_handler config env post stringify q n
              = \<lparr>content = [TextContent msg], isError = Some True\<rparr>
            \<and> embeds_status e msg)
       \<and> (\<exists>msg. deep_search_handler config env post' stringify' objective search_queries num live
              = \<lparr>content = [TextContent msg], isError = Some True\<rparr>
            \<and> embeds_status e' msg)"
  using assms exa_code_catch_error [of e] deep_search_catch_error [of e']
  by (simp add: exa_code_handler_def exa_code_result_def deep_search_handler_def
      deep_search_result_def)


theorem C4_failures_become_error_results_witness:
  "(\<lambda>r. Threw (AxiosError (Some \<lparr>status = 401, data_message = Some ''Invalid API key''\<rparr>)
                    ''Request failed with status code 401''))
      (exa_code_post (None :: config option) None ''react hooks'' 3000)
     = (Threw (AxiosError (Some \<lparr>status = 401, data_message = Some ''Invalid API key''\<rparr>)
                    ''Request failed with status code 401'') :: unit exa_code_data option attempt)
   \<and> (\<lambda>r. Threw (AxiosError None ''timeout of 25000ms exceeded''))
      (deep_search_post (None :: config option) None ''news'' None None None)
     = (Threw (AxiosError None ''timeout of 25000ms exceeded'') :: unit search_data option attempt)
   \<and> exa_code_handler (None :: config option) None
        (\<lambda>r. Threw (AxiosError (Some \<lparr>status = 401, data_message = Some ''Invalid API key''\<rparr>)
                    ''Request failed with status code 401''))
        (\<lambda>j :: unit. []) ''react hooks'' 3000
     = \<lparr>content = [TextContent ''Code search error (401): Invalid API key. Please check your query and try again.''],
        isError = Some True\<rparr>
   \<and> sublist ''401'' ''Code search error (401): Invalid API key. Please check your query and try again.''
   \<and> deep_search_handler (None :: config option) None
        (\<lambda>r. Threw (AxiosError None ''timeout of 25000ms exceeded''))
        (\<lambda>d :: unit search_data. []) ''news'' None None None
     = \<lparr>content = [TextContent ''Deep search error (unknown): timeout of 25000ms exceeded''],
        isError = Some True\<rparr>"
proof -
  let ?e = "AxiosError (Some \<lparr>status = 401, data_message = Some ''Invalid API key''\<rparr>)
                    ''Request failed with status code 401''"
  let ?e' = "AxiosError None ''timeout of 25000ms exceeded''"
  let ?post = "\<lambda>r :: exa_code_request request. (Threw ?e :: unit exa_code_data option attempt)"
  let ?post' = "\<lambda>r :: search_request request. (Threw ?e' :: unit search_data option attempt)"
  have h1: "?post (exa_code_post (None :: config option) None ''react hooks'' 3000) = Threw ?e"
    by simp
  have h2: "?post' (deep_search_post (None :: config option) None ''news'' None None None) = Threw ?e'"
    by simp
  have v1: "exa_code_handler (None :: config option) None ?post (\<lambda>j :: unit. []) ''react hooks'' 3000
     = \<lparr>content = [TextContent ''Code search error (401): Invalid API key. Please check your query and try again.''],
        isError = Some True\<rparr>"
    by code_simp
  have v2: "deep_search_handler (None :: config option) None ?post'
        (\<lambda>d :: unit search_data. []) ''news'' None None None
     = \<lparr>content = [TextContent ''Deep search error (unknown): timeout of 25000ms exceeded''],
        isError = Some True\<rparr>"
    by code_simp
  have d: "decimal 401 = ''401''"
    by code_simp
  from C4_failures_become_error_results [of ?post "None :: config option" None "''react hooks''" 3000 ?e
      ?post' "''news''" None None None ?e' "\<lambda>j :: unit. []" "\<lambda>d :: unit search_data. []", OF h1 h2]
  obtain msg where m: "exa_code_handler (None :: config option) None ?post (\<lambda>j :: unit. []) ''react hooks'' 3000
       = \<lparr>content = [TextContent msg], isError = Some True\<rparr>"
    and s: "embeds_status ?e msg"
    by blast
  from m v1 have "msg = ''Code search error (401): Invalid API key. Please check your query and try again.''"
    by simp
  with s d have v3: "sublist ''401''
      ''Code search error (401): Invalid API key. Please check your query and try again.''"
    by (simp add: embeds_status_def)
  from h1 h2 v1 v3 v2 show ?thesis by (intro conjI)
qed

text \<open>
  Claim C7, as the code has it. For \<open>deep_search_exa\<close>, a successful answer with no
  data, no \<open>results\<close> property or an empty \<open>results\<close> array gives the fixed "nothing
  found" message in one text block, without setting \<open>isError\<close>. For
  \<open>get_code_context_exa\<close> the only test is \<open>!response.data\<close>: an answer with no data
  gives that handler's fixed message, without setting \<open>isError\<close>, while an answer with
  data is returned as its \<open>response\<close> string, whatever \<open>resultsCount\<close> says, also
  without setting \<open>isError\<close>. Both fixed messages differ from the result of every
  failure.
\<close>
theorem C7_empty_result_is_benign:
  assumes "post (exa_code_post config env q n) = Responded None"
    and "post' (deep_search_post config env objective search_queries num live) = Responded d"
    and "d = None \<or> (\<exists>x. d = Some x \<and> results x = None)
           \<or> (\<exists>x. d = Some x \<and> results x = Some [])"
  shows "exa_code_handler config env post stringify q n
           = \<lparr>content = [TextContent ''No code snippets or documentation found. Please try a different query, be more specific about the library or programming concept, or check the spelling of framework names.''],
              isError = None\<rparr>
       \<and> deep_search_handler config env post' stringify' objective search_queries num live
           = \<lparr>content = [TextContent ''No search results found. Please try a different query or adjust your search parameters.''],
              isError = None\<rparr>
       \<and> (\<forall>e. exa_code_result stringify (Threw e)
                \<noteq> exa_code_handler config env post stringify q n)
       \<and> (\<forall>e. deep_search_result stringify' (Threw e)
                \<noteq> deep_search_handler config env post' stringify' objective search_queries num live)
       \<and> (post2 (exa_code_post config env q n) = Responded (Some x)
              \<and> response x = ResponseString str \<longrightarrow>
            exa_code_handler config env post2 stringify q n
              = \<lparr>content = [TextContent str], isError = None\<rparr>)"
proof -
  have w: "exa_code_handler config env post2 stringify q n
              = \<lparr>content = [TextContent str], isError = None\<rparr>"
    if "post2 (exa_code_post config env q n) = Responded (Some x)"
      and "response x = ResponseString str"
    using that by (simp add: exa_code_handler_def exa_code_result_def)
  have a: "exa_code_handler config env post stringify q n
           = \<lparr>content = [TextContent ''No code snippets or documentation found. Please try a different query, be more specific about the library or programming concept, or check the spelling of framework names.''],
              isError = None\<rparr>"
    using assms(1) by (simp add: exa_code_handler_def exa_code_result_def)
  from assms(3) have "deep_search_result stringify' (Responded d) = deep_search_empty"
    by (auto simp: deep_search_result_def)
  then have b: "deep_search_handler config env post' stringify' objective search_queries num live
           = \<lparr>content = [TextContent ''No search results found. Please try a different query or adjust your search parameters.''],
              isError = None\<rparr>"
    using assms(2) by (simp add: deep_search_handler_def deep_search_empty_def)
  have c: "isError (exa_code_result stringify (Threw e)) = Some True" for e
    using exa_code_catch_error [of e] by (auto simp: exa_code_result_def)
  have c': "isError (deep_search_result stringify' (Threw e)) = Some True" for e
    using deep_search_catch_error [of e] by (auto simp: deep_search_result_def)
  have "exa_code_result stringify (Threw e) \<noteq> exa_code_handler config env post stringify q n" for e
    using c [of e] unfolding a by auto
  moreover have "deep_search_result stringify' (Threw e)
      \<noteq> deep_search_handler config env post' stringify' objective search_queries num live" for e
    using c' [of e] unfolding b by auto
  ultimately show ?thesis using a b w by blast
qed

theorem C7_empty_result_is_benign_witness:
  "(\<lambda>r. Responded None) (exa_code_post (None :: config option) None ''react hooks'' 3000)
     = (Responded None :: unit exa_code_data option attempt)
   \<and> (\<lambda>r. Responded (Some \<lparr>results = Some []\<rparr>))
        (deep_search_post (None :: config option) None ''news'' None None None)
     = (Responded (Some \<lparr>results = Some []\<rparr>) :: unit search_data option attempt)
   \<and> results \<lparr>results = Some ([] :: unit list)\<rparr> = Some []
   \<and> exa_code_handler (None :: config option) None
        (\<lambda>r. Responded None) (\<lambda>j :: unit. []) ''react hooks'' 3000
     = \<lparr>content = [TextContent ''No code snippets or documentation found. Please try a different query, be more specific about the library or programming concept, or check the spelling of framework names.''],
        isError = None\<rparr>
   \<and> deep_search_handler (None :: config option) None
        (\<lambda>r. Responded (Some \<lparr>results = Some []\<rparr>))
        (\<lambda>d :: unit search_data. ''{}'') ''news'' None None None
     = \<lparr>content = [TextContent ''No search results found. Please try a different query or adjust your search parameters.''],
        isError = None\<rparr>
   \<and> response \<lparr>response = ResponseString ''useState example'', resultsCount = 0\<rparr>
     = (ResponseString ''useState example'' :: unit response_field)
   \<and> exa_code_handler (None :: config option) None
        (\<lambda>r. Responded (Some \<lparr>response = ResponseString ''useState example'', resultsCount = 0\<rparr>))
        (\<lambda>j :: unit. []) ''react hooks'' 3000
     = \<lparr>content = [TextContent ''useState example''], isError = None\<rparr>"
proof -
  let ?x = "\<lparr>response = (ResponseString ''useState example'' :: unit response_field),
             resultsCount = 0\<rparr>"
  let ?post2 = "\<lambda>r :: exa_code_request request.
      (Responded (Some ?x) :: unit exa_code_data option attempt)"
  let ?post = "\<lambda>r :: exa_code_request request. (Responded None :: unit exa_code_data option attempt)"
  let ?d = "Some \<lparr>results = Some ([] :: unit list)\<rparr>"
  let ?post' = "\<lambda>r :: search_request request. (Responded ?d :: unit search_data option attempt)"
  have h1: "?post (exa_code_post (None :: config option) None ''react hooks'' 3000) = Responded None"
    by simp
  have h2: "?post' (deep_search_post (None :: config option) None ''news'' None None None) = Responded ?d"
    by simp
  have r: "results \<lparr>results = Some ([] :: unit list)\<rparr> = Some []"
    by simp
  then have h3: "?d = None \<or> (\<exists>x. ?d = Some x \<and> results x = None)
           \<or> (\<exists>x. ?d = Some x \<and> results x = Some [])"
    by simp
  have h4: "?post2 (exa_code_post (None :: config option) None ''react hooks'' 3000)
      = Responded (Some ?x)"
    by simp
  have h5: "response ?x = ResponseString ''useState example''"
    by simp
  note t = C7_empty_result_is_benign [where post = ?post and config = "None :: config option"
      and env = None and q = "''react hooks''" and n = 3000 and post' = ?post'
      and objective = "''news''" and search_queries = None and num = None and live = None
      and d = ?d and stringify = "\<lambda>j :: unit. []"
      and stringify' = "\<lambda>d :: unit search_data. ''{}''"
      and ?post2.0 = ?post2 and x = ?x and str = "''useState example''", OF h1 h2 h3]
  from t
  have v1: "exa_code_handler (None :: config option) None ?post (\<lambda>j :: unit. []) ''react hooks'' 3000
     = \<lparr>content = [TextContent ''No code snippets or documentation found. Please try a different query, be more specific about the library or programming concept, or check the spelling of framework names.''],
        isError = None\<rparr>"
    and v2: "deep_search_handler (None :: config option) None ?post'
        (\<lambda>d :: unit search_data. ''{}'') ''news'' None None None
     = \<lparr>content = [TextContent ''No search results found. Please try a different query or adjust your search parameters.''],
        isError = None\<rparr>"
    by blast+
  from t h4 h5
  have v3: "exa_code_handler (None :: config option) None ?post2 (\<lambda>j :: unit. []) ''react hooks'' 3000
     = \<lparr>content = [TextContent ''useState example''], isError = None\<rparr>"
    by blast
  from h1 h2 r v1 v2 h5 v3 show ?thesis by (intro conjI)
qed

text \<open>
  Claim C7 as stated fails for \<open>get_code_context_exa\<close>: for the successful answer
  \<open>{ response: "", resultsCount: 0 }\<close>, which has zero results, the data is truthy, so
  the handler returns the empty \<open>response\<close> string as its text, not a "nothing found"
  message.
\<close>
theorem C7_code_context_zero_results_counterexample:
  "resultsCount \<lparr>response = (ResponseString [] :: unit response_field), resultsCount = 0\<rparr> = 0
   \<and> exa_code_handler (None :: config option) None
        (\<lambda>r. Responded (Some \<lparr>response = ResponseString [], resultsCount = 0\<rparr>))
        (\<lambda>j :: unit. []) ''react hooks'' 3000
     = \<lparr>content = [TextContent []], isError = None\<rparr>
   \<and> exa_code_handler (None :: config option) None
        (\<lambda>r. Responded (Some \<lparr>response = ResponseString [], resultsCount = 0\<rparr>))
        (\<lambda>j :: unit. []) ''react hooks'' 3000
     \<noteq> \<lparr>content = [TextContent ''No code snippets or documentation found. Please try a different query, be more specific about the library or programming concept, or check the spelling of framework names.''],
        isError = None\<rparr>"
  by (simp add: exa_code_handler_def exa_code_result_def)

lemma x_api_key_header:
  "map_of (request_headers config env) ''x-api-key'' = Some (x_api_key config env)"
  by (simp add: request_headers_def)

text \<open>
  Claim C9. The request of each handler carries the header \<open>x-api-key\<close>, whose value is
  \<open>config.exaApiKey\<close> when that is a non-empty string, otherwise the environment
  variable \<open>EXA_API_KEY\<close> when it is non-empty, otherwise the empty string. Building the
  request has no failing branch: for every key the handler's result is the outcome of the
  remote call on that request.
\<close>
theorem C9_api_key_header:
  "map_of (headers (exa_code_post config env q n)) ''x-api-key'' = Some (x_api_key config env)
   \<and> map_of (headers (deep_search_post config env objective search_queries num live)) ''x-api-key''
       = Some (x_api_key config env)
   \<and> (\<forall>c k. config = Some c \<and> exaApiKey c = Some k \<and> k \<noteq> [] \<longrightarrow> x_api_key config env = k)
   \<and> (config = None \<or> (\<exists>c. config = Some c \<and> (exaApiKey c = None \<or> exaApiKey c = Some [])) \<longrightarrow>
        (\<forall>v. env = Some v \<and> v \<noteq> [] \<longrightarrow> x_api_key config env = v)
        \<and> (env = None \<or> env = Some [] \<longrightarrow> x_api_key config env = []))
   \<and> exa_code_handler config env post stringify q n
       = exa_code_result stringify (post (exa_code_post config env q n))
   \<and> deep_search_handler config env post' stringify' objective search_queries num live
       = deep_search_result stringify'
           (post' (deep_search_post config env objective search_queries num live))"
proof -
  have "map_of (headers (exa_code_post config env q n)) ''x-api-key'' = Some (x_api_key config env)"
    by (simp add: exa_code_post_def x_api_key_header)
  moreover have "map_of (headers (deep_search_post config env objective search_queries num live))
      ''x-api-key'' = Some (x_api_key config env)"
    by (simp add: deep_search_post_def x_api_key_header)
  moreover have "\<forall>c k. config = Some c \<and> exaApiKey c = Some k \<and> k \<noteq> [] \<longrightarrow> x_api_key config env = k"
    by (auto simp: x_api_key_def or_else_def)
  moreover have "config = None \<or> (\<exists>c. config = Some c \<and> (exaApiKey c = None \<or> exaApiKey c = Some [])) \<longrightarrow>
        (\<forall>v. env = Some v \<and> v \<noteq> [] \<longrightarrow> x_api_key config env = v)
        \<and> (env = None \<or> env = Some [] \<longrightarrow> x_api_key config env = [])"
    by (auto simp: x_api_key_def or_else_def)
  ultimately show ?thesis
    by (simp only: exa_code_handler_def deep_search_handler_def simp_thms)
qed

theorem C9_api_key_header_witness:
  "map_of (headers (exa_code_post (Some \<lparr>exaApiKey = Some []\<rparr>) (Some ''env-key'') ''react hooks'' 3000))
     ''x-api-key'' = Some ''env-key''
   \<and> map_of (headers (exa_code_post (Some \<lparr>exaApiKey = Some ''cfg-key''\<rparr>) (Some ''env-key'') ''react hooks'' 3000))
     ''x-api-key'' = Some ''cfg-key''
   \<and> map_of (headers (deep_search_post (Some \<lparr>exaApiKey = None\<rparr>) None ''news'' None None None))
     ''x-api-key'' = Some []"
proof -
  let ?post = "\<lambda>r :: exa_code_request request. (Responded None :: unit exa_code_data option attempt)"
  let ?post' = "\<lambda>r :: search_request request. (Responded None :: unit search_data option attempt)"
  note t = C9_api_key_header [where q = "''react hooks''" and n = 3000
      and objective = "''news''" and search_queries = None and num = None and live = None
      and post = ?post and post' = ?post' and stringify = "\<lambda>j. []" and stringify' = "\<lambda>d. []"]
  have a: "map_of (headers (exa_code_post (Some \<lparr>exaApiKey = Some []\<rparr>) (Some ''env-key'') ''react hooks'' 3000))
     ''x-api-key'' = Some ''env-key''"
    using t [where config = "Some \<lparr>exaApiKey = Some []\<rparr>" and env = "Some ''env-key''"]
    by simp
  have b: "map_of (headers (exa_code_post (Some \<lparr>exaApiKey = Some ''cfg-key''\<rparr>) (Some ''env-key'') ''react hooks'' 3000))
     ''x-api-key'' = Some ''cfg-key''"
    using t [where config = "Some \<lparr>exaApiKey = Some ''cfg-key''\<rparr>" and env = "Some ''env-key''"]
    by simp
  have c: "map_of (headers (deep_search_post (Some \<lparr>exaApiKey = None\<rparr>) None ''news'' None None None))
     ''x-api-key'' = Some []"
    using t [where config = "Some \<lparr>exaApiKey = None\<rparr>" and env = None]
    by simp
  from a b c show ?thesis by (intro conjI)
qed


section \<open>The serialisation parses back\<close>

lemma of_char_small [simp]: "n < 256 \<Longrightarrow> (of_char (char_of n :: char) :: nat) = n"
  by (simp add: of_char_of)

lemma hex_value_hex_digit: "d < 16 \<Longrightarrow> hex_value (hex_digit d) = Some d"
  by (auto simp: hex_value_def hex_digit_def Let_def)

lemma hex_value_zero: "hex_value CHR ''0'' = Some 0"
  by (simp add: hex_value_def)

lemma unescape_escape:
  assumes "(of_char c :: nat) < 32"
  shows "unescape_unicode CHR ''0'' CHR ''0''
           (hex_digit (of_char c div 16)) (hex_digit (of_char c mod 16)) = Some c"
proof -
  have "(of_char c :: nat) div 16 < 16" using assms by simp
  moreover have "(of_char c :: nat) mod 16 < 16" by simp
  moreover have "char_of ((of_char c :: nat) div 16 * 16 + of_char c mod 16) = c"
    by simp
  ultimately show ?thesis
    by (simp add: unescape_unicode_def hex_value_hex_digit hex_value_zero)
qed

lemma parse_chars_escape:
  "parse_chars (escape_char c @ t) = map_option (apfst ((#) c)) (parse_chars t)"
proof -
  consider "c = CHR 0x22" | "c = CHR 0x5C"
    | "c \<noteq> CHR 0x22" "c \<noteq> CHR 0x5C" "(of_char c :: nat) < 32"
    | "c \<noteq> CHR 0x22" "c \<noteq> CHR 0x5C" "\<not> (of_char c :: nat) < 32"
    by blast
  then show ?thesis
  proof cases
    case 1
    then show ?thesis by (simp add: escape_char_def)
  next
    case 2
    then show ?thesis by (simp add: escape_char_def)
  next
    case 3
    then show ?thesis by (simp add: escape_char_def unescape_escape)
  next
    case 4
    then show ?thesis by (simp add: escape_char_def)
  qed
qed

lemma parse_chars_escaped:
  "parse_chars (concat (map escape_char s) @ CHR 0x22 # rest) = Some (s, rest)"
  by (induction s) (simp_all add: parse_chars_escape)

lemma parse_chars_quote: "parse_chars (tl (quote s) @ rest) = Some (s, rest)"
  by (simp add: quote_def parse_chars_escaped)

lemma quote_Cons: "quote s = CHR 0x22 # tl (quote s)"
  by (simp add: quote_def)

lemma digit_props:
  assumes "d < 10"
  shows "is_digit (digit d)" and "(of_char (digit d) :: nat) - 48 = d"
  using assms by (simp_all add: digit_def is_digit_def)

lemma decimal_digits: "c \<in> set (decimal n) \<Longrightarrow> is_digit c"
proof (induction n arbitrary: c rule: decimal.induct)
  case (1 n)
  show ?case
  proof (cases "n < 10")
    case True
    with "1.prems" show ?thesis
      by (simp add: decimal.simps [of n] digit_props)
  next
    case False
    with "1.prems" "1.IH" show ?thesis
      by (auto simp: decimal.simps [of n] digit_props)
  qed
qed

lemma decimal_not_Nil: "decimal n \<noteq> []"
  by (subst decimal.simps) simp

lemma digits_value_snoc:
  "digits_value (ds @ [c]) = 10 * digits_value ds + (of_char c - 48)"
  by (simp add: digits_value_def)

lemma digits_value_decimal: "digits_value (decimal n) = n"
proof (induction n rule: decimal.induct)
  case (1 n)
  show ?case
  proof (cases "n < 10")
    case True
    then show ?thesis
      by (simp add: decimal.simps [of n] digits_value_def digit_props)
  next
    case False
    then have "digits_value (decimal n) = 10 * (n div 10) + n mod 10"
      using "1.IH" by (simp add: decimal.simps [of n] digits_value_snoc digit_props)
    then show ?thesis by simp
  qed
qed

lemma takeWhile_digits:
  assumes "\<And>c. c \<in> set ds \<Longrightarrow> is_digit c" and "ends_number rest"
  shows "takeWhile is_digit (ds @ rest) = ds" and "dropWhile is_digit (ds @ rest) = rest"
proof -
  from assms(2) have "takeWhile is_digit rest = []" and "dropWhile is_digit rest = rest"
    by (cases rest; simp add: ends_number_def)+
  with assms(1) show "takeWhile is_digit (ds @ rest) = ds"
    and "dropWhile is_digit (ds @ rest) = rest"
    by (simp_all add: takeWhile_append2 dropWhile_append2)
qed

lemma parse_nat_decimal:
  assumes "ends_number rest"
  shows "parse_nat (decimal n @ rest) = Some (n, rest)"
  using takeWhile_digits [of "decimal n" rest, OF decimal_digits assms]
  by (simp add: parse_nat_def decimal_not_Nil digits_value_decimal)

lemma hd_decimal_digit: "is_digit (hd (decimal n))"
  using decimal_digits [of "hd (decimal n)" n] decimal_not_Nil [of n] by simp

lemma minus_not_digit: "\<not> is_digit CHR ''-''"
  by (simp add: is_digit_def)

lemma parse_number_text:
  assumes "ends_number rest"
  shows "parse_number (number_text i @ rest) = Some (JNumber i, rest)"
proof (cases "i < 0")
  case True
  then show ?thesis
    by (simp add: parse_number_def number_text_def parse_nat_decimal [OF assms])
next
  case False
  obtain c cs where d: "decimal (nat i) = c # cs"
    using decimal_not_Nil [of "nat i"] by (cases "decimal (nat i)") auto
  with hd_decimal_digit [of "nat i"] minus_not_digit have "c \<noteq> CHR ''-''"
    by auto
  moreover have "parse_nat (c # cs @ rest) = Some (nat i, rest)"
    using parse_nat_decimal [OF assms, of "nat i"] d by simp
  ultimately show ?thesis
    using False d by (simp add: parse_number_def number_text_def)
qed

lemma ends_number_simps [simp]:
  "ends_number []" "ends_number (CHR '','' # r)" "ends_number (CHR '']'' # r)"
  "ends_number (CHR ''}'' # r)"
  by (simp_all add: ends_number_def is_digit_def)

lemma parse_elements_step_last:
  assumes "parse_value m s = Some (v, CHR '']'' # rest)"
  shows "parse_elements (Suc m) s = Some ([v], rest)"
  using assms by simp

lemma parse_elements_step_more:
  assumes "parse_value m s = Some (v, CHR '','' # t)" and "parse_elements m t = Some (vs, rest)"
  shows "parse_elements (Suc m) s = Some (v # vs, rest)"
  using assms by simp

lemma parse_elements_join:
  assumes "vs \<noteq> []"
    and "\<And>v n rest. v \<in> set vs \<Longrightarrow> length (serialize v) \<le> n \<Longrightarrow> ends_number rest
           \<Longrightarrow> parse_value n (serialize v @ rest) = Some (v, rest)"
    and "length (join '','' (map serialize vs)) < n"
  shows "parse_elements n (join '','' (map serialize vs) @ CHR '']'' # rest) = Some (vs, rest)"
  using assms
proof (induction vs arbitrary: n)
  case Nil
  then show ?case by simp
next
  case (Cons v vs)
  from Cons.prems(3) obtain m where n: "n = Suc m"
    by (cases n) auto
  show ?case
  proof (cases vs)
    case Nil
    have s: "join '','' (map serialize (v # vs)) = serialize v"
      by (simp add: Nil)
    with Cons.prems(3) n have "length (serialize v) \<le> m" by simp
    then have "parse_value m (serialize v @ CHR '']'' # rest) = Some (v, CHR '']'' # rest)"
      by (intro Cons.prems(2)) simp_all
    then have "parse_elements (Suc m) (serialize v @ CHR '']'' # rest) = Some ([v], rest)"
      by (rule parse_elements_step_last)
    then have "parse_elements n (join '','' (map serialize (v # vs)) @ CHR '']'' # rest)
        = Some ([v], rest)"
      by (simp only: s n)
    then show ?thesis
      by (simp only: Nil)
  next
    case (Cons v' vs')
    let ?tail = "join '','' (map serialize vs)"
    have s: "join '','' (map serialize (v # vs)) = serialize v @ '','' @ ?tail"
      by (simp add: Cons)
    with Cons.prems(3) n have l: "length (serialize v) \<le> m" and l': "length ?tail < m"
      by simp_all
    have "parse_value m (serialize v @ CHR '','' # ?tail @ CHR '']'' # rest)
        = Some (v, CHR '','' # ?tail @ CHR '']'' # rest)"
      using l by (intro Cons.prems(2)) simp_all
    moreover have "parse_elements m (?tail @ CHR '']'' # rest) = Some (vs, rest)"
    proof (rule Cons.IH)
      show "vs \<noteq> []" using Cons by simp
      show "parse_value k (serialize u @ r) = Some (u, r)"
        if "u \<in> set vs" "length (serialize u) \<le> k" "ends_number r" for u k r
        using that by (intro Cons.prems(2)) simp_all
      show "length ?tail < m" by (rule l')
    qed
    ultimately have "parse_elements (Suc m) (serialize v @ CHR '','' # ?tail @ CHR '']'' # rest)
        = Some (v # vs, rest)"
      by (rule parse_elements_step_more)
    then show ?thesis
      by (simp only: s n append_assoc append_Cons append_Nil)
  qed
qed

lemma parse_members_key:
  assumes "parse_value m t = Some (v, r)"
  shows "parse_members (Suc m) (quote k @ CHR '':'' # t) =
     (case r of
        [] \<Rightarrow> None
      | d # r3 \<Rightarrow>
          if d = CHR '','' then map_option (apfst ((#) (k, v))) (parse_members m r3)
          else if d = CHR ''}'' then Some ([(k, v)], r3)
          else None)"
proof -
  have e: "quote k @ CHR '':'' # t = CHR 0x22 # (tl (quote k) @ CHR '':'' # t)"
    by (simp add: quote_def)
  have p: "parse_chars (tl (quote k) @ CHR '':'' # t) = Some (k, CHR '':'' # t)"
    by (rule parse_chars_quote)
  show ?thesis
    unfolding e using p assms by simp
qed

lemma parse_members_step_last:
  assumes "parse_value m t = Some (v, CHR ''}'' # rest)"
  shows "parse_members (Suc m) (quote k @ CHR '':'' # t) = Some ([(k, v)], rest)"
  unfolding parse_members_key [OF assms] by simp

lemma parse_members_step_more:
  assumes "parse_value m t = Some (v, CHR '','' # u)" and "parse_members m u = Some (ms, rest)"
  shows "parse_members (Suc m) (quote k @ CHR '':'' # t) = Some ((k, v) # ms, rest)"
  unfolding parse_members_key [OF assms(1)] by (simp add: assms(2))

lemma member_text_pair: "member_text (k, v) = quote k @ CHR '':'' # serialize v"
  by (simp add: member_text_def)

lemma length_member_text: "length (serialize v) < length (member_text (k, v))"
  by (simp add: member_text_def)

lemma parse_members_join:
  assumes "ms \<noteq> []"
    and "\<And>k v n rest. (k, v) \<in> set ms \<Longrightarrow> length (serialize v) \<le> n \<Longrightarrow> ends_number rest
           \<Longrightarrow> parse_value n (serialize v @ rest) = Some (v, rest)"
    and "length (join '','' (map member_text ms)) < n"
  shows "parse_members n (join '','' (map member_text ms) @ CHR ''}'' # rest) = Some (ms, rest)"
  using assms
proof (induction ms arbitrary: n)
  case Nil
  then show ?case by simp
next
  case (Cons kv ms)
  obtain k v where kv: "kv = (k, v)" by (cases kv)
  from Cons.prems(3) obtain m where n: "n = Suc m"
    by (cases n) auto
  have mem: "(k, v) \<in> set (kv # ms)"
    by (simp add: kv)
  show ?case
  proof (cases ms)
    case Nil
    have s: "join '','' (map member_text (kv # ms)) = member_text (k, v)"
      by (simp add: Nil kv)
    with Cons.prems(3) n length_member_text [of v k] have "length (serialize v) \<le> m"
      by simp
    then have "parse_value m (serialize v @ CHR ''}'' # rest) = Some (v, CHR ''}'' # rest)"
      using mem by (intro Cons.prems(2) [of k]) simp_all
    then have "parse_members (Suc m) (quote k @ CHR '':'' # serialize v @ CHR ''}'' # rest)
        = Some ([(k, v)], rest)"
      by (rule parse_members_step_last)
    then have "parse_members n (join '','' (map member_text (kv # ms)) @ CHR ''}'' # rest)
        = Some ([(k, v)], rest)"
      by (simp only: s n member_text_pair append_assoc append_Cons)
    then show ?thesis
      by (simp only: Nil kv)
  next
    case (Cons kv' ms')
    let ?tail = "join '','' (map member_text ms)"
    have s: "join '','' (map member_text (kv # ms)) = member_text (k, v) @ '','' @ ?tail"
      by (simp add: Cons kv)
    with Cons.prems(3) n length_member_text [of v k]
    have l: "length (serialize v) \<le> m" and l': "length ?tail < m"
      by simp_all
    have "parse_value m (serialize v @ CHR '','' # ?tail @ CHR ''}'' # rest)
        = Some (v, CHR '','' # ?tail @ CHR ''}'' # rest)"
      using l mem by (intro Cons.prems(2) [of k]) simp_all
    moreover have "parse_members m (?tail @ CHR ''}'' # rest) = Some (ms, rest)"
    proof (rule Cons.IH)
      show "ms \<noteq> []" using Cons by simp
      show "parse_value i (serialize u @ r) = Some (u, r)"
        if "(a, u) \<in> set ms" "length (serialize u) \<le> i" "ends_number r" for a u i r
        using that by (intro Cons.prems(2) [of a]) simp_all
      show "length ?tail < m" by (rule l')
    qed
    ultimately have "parse_members (Suc m)
        (quote k @ CHR '':'' # serialize v @ CHR '','' # ?tail @ CHR ''}'' # rest)
        = Some ((k, v) # ms, rest)"
      by (rule parse_members_step_more)
    then have "parse_members n (join '','' (map member_text (kv # ms)) @ CHR ''}'' # rest)
        = Some ((k, v) # ms, rest)"
      by (simp only: s n member_text_pair append_assoc append_Cons append_Nil)
    then show ?thesis
      by (simp only: kv)
  qed
qed

lemma is_digit_not_opener:
  assumes "is_digit c"
  shows "c \<noteq> CHR ''n''" "c \<noteq> CHR ''t''" "c \<noteq> CHR ''f''" "c \<noteq> CHR 0x22"
    "c \<noteq> CHR ''[''" "c \<noteq> CHR ''{''" "c \<noteq> CHR '']''" "c \<noteq> CHR ''}''"
  using assms by (auto simp: is_digit_def)

lemma number_text_Cons:
  obtains c cs where "number_text i = c # cs" and "c = CHR ''-'' \<or> is_digit c"
proof (cases "i < 0")
  case True
  then have "number_text i = CHR ''-'' # decimal (nat (- i))"
    by (simp add: number_text_def)
  then show ?thesis using that by blast
next
  case False
  obtain c cs where d: "decimal (nat i) = c # cs"
    using decimal_not_Nil [of "nat i"] by (cases "decimal (nat i)") auto
  with hd_decimal_digit [of "nat i"] have "is_digit c" by simp
  moreover from False d have "number_text i = c # cs"
    by (simp add: number_text_def)
  ultimately show ?thesis using that by blast
qed

lemma parse_value_number:
  assumes "ends_number rest"
  shows "parse_value (Suc m) (number_text i @ rest) = Some (JNumber i, rest)"
proof -
  obtain c cs where t: "number_text i = c # cs" and c: "c = CHR ''-'' \<or> is_digit c"
    by (rule number_text_Cons)
  from c have "c \<noteq> CHR ''n''" "c \<noteq> CHR ''t''" "c \<noteq> CHR ''f''" "c \<noteq> CHR 0x22"
    "c \<noteq> CHR ''[''" "c \<noteq> CHR ''{''"
    using is_digit_not_opener [of c] by auto
  then have "parse_value (Suc m) (c # cs @ rest) = parse_number (c # cs @ rest)"
    by simp
  then have "parse_value (Suc m) (number_text i @ rest) = parse_number (number_text i @ rest)"
    by (simp only: t append_Cons)
  then show ?thesis
    by (simp only: parse_number_text [OF assms])
qed

lemma serialize_not_Nil: "serialize v \<noteq> []"
proof (cases v)
  case (JNumber i)
  then show ?thesis
    using number_text_Cons [of i] by (metis list.distinct(1) serialize.simps(3))
qed (simp_all add: quote_def)

lemma hd_serialize_not_closing: "hd (serialize v) \<noteq> CHR '']''"
proof (cases v)
  case (JNumber i)
  obtain c cs where t: "number_text i = c # cs" and c: "c = CHR ''-'' \<or> is_digit c"
    by (rule number_text_Cons)
  from c have "c \<noteq> CHR '']''"
    using is_digit_not_opener [of c] by auto
  with JNumber t show ?thesis by simp
qed (simp_all add: quote_def)

lemma serialize_object: "serialize (JObject ms) = CHR ''{'' # join '','' (map member_text ms) @ ''}''"
  by (simp add: member_text_def)

lemma hd_members_quote:
  assumes "ms \<noteq> []"
  shows "join '','' (map member_text ms) \<noteq> [] \<and> hd (join '','' (map member_text ms)) = CHR 0x22"
proof -
  from assms obtain kv ms' where ms: "ms = kv # ms'" by (cases ms) auto
  obtain k v where kv: "kv = (k, v)" by (cases kv)
  show ?thesis
    by (cases ms') (simp_all add: ms kv member_text_def quote_def)
qed

lemma hd_elements:
  assumes "vs \<noteq> []"
  shows "join '','' (map serialize vs) \<noteq> []
     \<and> hd (join '','' (map serialize vs)) \<noteq> CHR '']''"
proof -
  from assms obtain v vs' where vs: "vs = v # vs'" by (cases vs) auto
  show ?thesis
    using serialize_not_Nil [of v] hd_serialize_not_closing [of v]
    by (cases vs') (simp_all add: vs)
qed

lemma parse_value_serialize:
  "length (serialize v) \<le> n \<Longrightarrow> ends_number rest
     \<Longrightarrow> parse_value n (serialize v @ rest) = Some (v, rest)"
proof (induction v arbitrary: n rest)
  case JNull
  then obtain m where "n = Suc m" by (cases n) auto
  then show ?case by (simp add: parse_literal_def)
next
  case (JBool b)
  then obtain m where "n = Suc m" by (cases n; cases b) auto
  then show ?case by (cases b) (simp_all add: parse_literal_def)
next
  case (JNumber i)
  from JNumber.prems(1) serialize_not_Nil [of "JNumber i"] obtain m where "n = Suc m"
    by (cases n) auto
  with JNumber.prems(2) show ?case
    by (simp only: serialize.simps parse_value_number)
next
  case (JString s)
  then obtain m where "n = Suc m" by (cases n) (auto simp: quote_def)
  moreover have "parse_chars (tl (quote s) @ rest) = Some (s, rest)"
    by (rule parse_chars_quote)
  ultimately show ?case
    by (simp add: quote_def)
next
  case (JArray vs)
  from JArray.prems(1) obtain m where n: "n = Suc m"
    by (cases n) auto
  show ?case
  proof (cases "vs = []")
    case True
    with n show ?thesis by simp
  next
    case False
    let ?body = "join '','' (map serialize vs)"
    from JArray.prems(1) n have l: "length ?body < m"
      by simp
    have "parse_elements m (?body @ CHR '']'' # rest) = Some (vs, rest)"
      using False JArray.IH l by (intro parse_elements_join) simp_all
    moreover from hd_elements [OF False] obtain c cs where b: "?body = c # cs" and "c \<noteq> CHR '']''"
      by (cases ?body) auto
    ultimately have "parse_value (Suc m) (CHR ''['' # ?body @ CHR '']'' # rest)
        = Some (JArray vs, rest)"
      by simp
    then show ?thesis
      by (simp add: n)
  qed
next
  case (JObject ms)
  from JObject.prems(1) obtain m where n: "n = Suc m"
    by (cases n) auto
  show ?case
  proof (cases "ms = []")
    case True
    with n show ?thesis by simp
  next
    case False
    let ?body = "join '','' (map member_text ms)"
    from JObject.prems(1) [unfolded serialize_object] n have l: "length ?body < m"
      by simp
    have ih: "parse_value i (serialize u @ r) = Some (u, r)"
      if "(a, u) \<in> set ms" "length (serialize u) \<le> i" "ends_number r" for a u i r
      using that JObject.IH [of "(a, u)" u i r] by simp
    have "parse_members m (?body @ CHR ''}'' # rest) = Some (ms, rest)"
      using False l by (intro parse_members_join ih) simp_all
    moreover from hd_members_quote [OF False] obtain cs where b: "?body = CHR 0x22 # cs"
      by (cases ?body) auto
    ultimately have "parse_value (Suc m) (CHR ''{'' # ?body @ CHR ''}'' # rest)
        = Some (JObject ms, rest)"
      by simp
    then show ?thesis
      unfolding serialize_object n by simp
  qed
qed

theorem parse_serialize: "parse (serialize v) = Some v"
  using parse_value_serialize [of v "length (serialize v)" "[]"]
  by (simp add: parse_def)


section \<open>Properties of the poll result\<close>

text \<open>
  Claim C3. For a snapshot with status \<open>completed\<close> and a data payload: when the payload
  has a string \<open>report\<close>, the result's text is that string, unchanged; when it has no
  \<open>report\<close>, the text is the serialisation of the payload, a function of the payload
  that parses back to it.
\<close>

theorem C3_completed_result_text:
  assumes "snapshot_status snap = Completed" and "snapshot_data snap = Some d"
  shows "(\<forall>x. map_of d ''report'' = Some (JString x) \<longrightarrow>
            poll_result snap = \<lparr>content = [TextContent x], isError = None\<rparr>)
       \<and> (map_of d ''report'' = None \<longrightarrow>
            poll_result snap = \<lparr>content = [TextContent (serialize (JObject d))], isError = None\<rparr>
            \<and> parse (serialize (JObject d)) = Some (JObject d))"
  using assms by (simp add: poll_result_def report_of_def parse_serialize del: serialize.simps)

theorem C3_completed_result_text_witness:
  "poll_result \<lparr>task_id = ''t1'', snapshot_status = Completed,
                 snapshot_data = Some [(''report'', JString ''X'')]\<rparr>
     = \<lparr>content = [TextContent ''X''], isError = None\<rparr>
   \<and> poll_result \<lparr>task_id = ''t2'', snapshot_status = Completed,
                 snapshot_data = Some [(''answer'', JNumber 42)]\<rparr>
     = \<lparr>content = [TextContent (CHR ''{'' # CHR 0x22 # ''answer'' @ CHR 0x22 # '':42}'')],
        isError = None\<rparr>
   \<and> parse (CHR ''{'' # CHR 0x22 # ''answer'' @ CHR 0x22 # '':42}'')
     = Some (JObject [(''answer'', JNumber 42)])"
proof -
  let ?s1 = "\<lparr>task_id = ''t1'', snapshot_status = Completed,
                 snapshot_data = Some [(''report'', JString ''X'')]\<rparr>"
  let ?s2 = "\<lparr>task_id = ''t2'', snapshot_status = Completed,
                 snapshot_data = Some [(''answer'', JNumber 42)]\<rparr>"
  have t: "serialize (JObject [(''answer'', JNumber 42)])
      = CHR ''{'' # CHR 0x22 # ''answer'' @ CHR 0x22 # '':42}''"
    by code_simp
  have a: "poll_result ?s1 = \<lparr>content = [TextContent ''X''], isError = None\<rparr>"
    using C3_completed_result_text [of ?s1 "[(''report'', JString ''X'')]"] by simp
  have "poll_result ?s2
      = \<lparr>content = [TextContent (serialize (JObject [(''answer'', JNumber 42)]))], isError = None\<rparr>
    \<and> parse (serialize (JObject [(''answer'', JNumber 42)])) = Some (JObject [(''answer'', JNumber 42)])"
    using C3_completed_result_text [of ?s2 "[(''answer'', JNumber 42)]"] by simp
  then have b: "poll_result ?s2
      = \<lparr>content = [TextContent (CHR ''{'' # CHR 0x22 # ''answer'' @ CHR 0x22 # '':42}'')],
        isError = None\<rparr>"
    and c: "parse (CHR ''{'' # CHR 0x22 # ''answer'' @ CHR 0x22 # '':42}'')
      = Some (JObject [(''answer'', JNumber 42)])"
    unfolding t by blast+
  from a b c show ?thesis by (intro conjI)
qed


end
